theory Spec2Isabelle
  imports Complex_Main "HOL-Library.AList"
begin

section \<open>Ensemble fault diagnosis (portal/hailo\_inference.py)\<close>

text \<open>
  A shallow embedding of the class \<open>HailoHVACDiagnostics\<close> and of the \<open>diagnose\<close> command of
  \<open>main\<close>.

  Conventions of the embedding.
  \<^item> A Python float is a \<open>real\<close>: the values compared by the code (\<open>fault_prob\<close> against the
    literal \<open>0.5\<close>, confidences against each other) are finite floats, whose order is the order
    of the reals; \<open>0.5\<close> is exact in binary. The consensus \<open>fault_votes / len(valid_results)\<close>
    is the exact quotient; with at most \<open>2 ^ 49\<close> results its comparison with the literals
    \<open>0.7\<close> and \<open>0.3\<close> agrees with the comparison of the rounded quotient, since rounding
    is monotone and no quotient with such a denominator rounds to the float of \<open>0.7\<close> or
    \<open>0.3\<close> without being equal to it.
  \<^item> A Python dict whose iteration order matters is an association list in insertion order;
    \<open>d[k] = v\<close> is \<open>AList.update k v d\<close> (in place when the key is present, appended
    otherwise).
  \<^item> The two shapes of a per-model result dict, \<open>{fault_detected, confidence, diagnosis, ...}\<close>
    and \<open>{error}\<close>, are the two constructors of \<open>model_result\<close>; the optional keys
    \<open>inference_time_ms\<close> and \<open>total_ensemble_time_ms\<close> are \<open>option\<close> fields.
  \<^item> The HailoRT runtime, the file system, the JSON parser, the wall clock and the order in
    which the worker threads take the lock are parameters.
  \<^item> An exception is a value of \<open>py_error\<close>; a function that can raise returns a sum, with
    the exception on the left.
\<close>

subsection \<open>Model registry\<close>

definition MODEL_PATHS :: "(string \<times> string) list" where
  "MODEL_PATHS =
    [(''apollo'', ''/home/Automata/mydata/apollo-nexus/models/apollo_simple.hef''),
     (''aquilo'', ''/home/Automata/mydata/apollo-nexus/models/aquilo_simple.hef''),
     (''boreas'', ''/home/Automata/mydata/apollo-nexus/models/boreas_simple.hef''),
     (''naiad'', ''/home/Automata/mydata/apollo-nexus/models/naiad_simple.hef''),
     (''vulcan'', ''/home/Automata/mydata/apollo-nexus/models/vulcan_simple.hef''),
     (''zephyrus'', ''/home/Automata/mydata/apollo-nexus/models/zephyrus_simple.hef''),
     (''colossus'', ''/home/Automata/mydata/apollo-nexus/models/colossus_simple.hef''),
     (''gaia'', ''/home/Automata/mydata/apollo-nexus/models/gaia_simple.hef'')]"

text \<open>\<open>MODEL_PATHS.keys()\<close>, in insertion order.\<close>

definition MODEL_KEYS :: "string list" where
  "MODEL_KEYS = map fst MODEL_PATHS"

text \<open>An entry of \<open>self.models\<close>: \<open>{'loaded', 'path', 'size'}\<close> or \<open>{'loaded', 'error', 'path'}\<close>.\<close>

record model_info =
  loaded :: bool
  path :: string
  load_error :: "string option"
  size_mb :: "real option"

record diagnostics =
  target :: "unit option"
  models :: "string \<rightharpoonup> model_info"
  network_groups :: "string set"

text \<open>\<open>HailoHVACDiagnostics.__init__\<close>\<close>

definition init_diagnostics :: diagnostics where
  "init_diagnostics = \<lparr>target = None, models = Map.empty, network_groups = {}\<rparr>"

text \<open>
  What the runtime does when \<open>initialize\<close> runs: whether \<open>VDevice(params)\<close> returns (it raises
  when the device is absent, and the name is undefined when \<open>hailo_platform\<close> could not be
  imported), and what happens for each model path:
  \<^item> \<open>Path_exception\<close>: \<open>path.exists()\<close> raises (no permission to search the directory);
    this is outside the \<open>try\<close> of the model and ends \<open>initialize\<close>;
  \<^item> \<open>File_not_found\<close>: \<open>path.exists()\<close> is false;
  \<^item> \<open>Load_exception\<close>: creating or configuring the HEF raises;
  \<^item> \<open>Stat_exception\<close>: the network group is configured and stored, then
    \<open>path.stat()\<close> raises;
  \<^item> \<open>Loaded\<close>: the model is loaded, with its file size in MB, rounded.
\<close>

datatype load_outcome =
    Path_exception string
  | File_not_found
  | Load_exception string
  | Stat_exception string
  | Loaded real

record hardware =
  vdevice_ok :: bool
  load_hef :: "string \<Rightarrow> load_outcome"

definition load_model :: "hardware \<Rightarrow> diagnostics \<Rightarrow> string \<times> string \<Rightarrow> diagnostics" where
  "load_model hw self entry =
    (case entry of (model_name, model_path) \<Rightarrow>
      (case load_hef hw model_path of
         Loaded sz \<Rightarrow>
           self\<lparr>network_groups := insert model_name (network_groups self),
                models := (models self)(model_name \<mapsto>
                  \<lparr>loaded = True, path = model_path, load_error = None, size_mb = Some sz\<rparr>)\<rparr>
       | Stat_exception e \<Rightarrow>
           self\<lparr>network_groups := insert model_name (network_groups self),
                models := (models self)(model_name \<mapsto>
                  \<lparr>loaded = False, path = model_path, load_error = Some e, size_mb = None\<rparr>)\<rparr>
       | Load_exception e \<Rightarrow>
           self\<lparr>models := (models self)(model_name \<mapsto>
                  \<lparr>loaded = False, path = model_path, load_error = Some e, size_mb = None\<rparr>)\<rparr>
       | Path_exception e \<Rightarrow> self
       | File_not_found \<Rightarrow>
           self\<lparr>models := (models self)(model_name \<mapsto>
                  \<lparr>loaded = False, path = model_path, load_error = Some ''File not found'',
                   size_mb = None\<rparr>)\<rparr>))"

text \<open>
  \<open>for model_name, model_path in MODEL_PATHS.items(): ...\<close>, inside the outer \<open>try\<close>: an
  exception of \<open>path.exists()\<close> leaves the loop and makes \<open>initialize\<close> return false, with
  the models handled so far recorded.
\<close>

fun load_models :: "hardware \<Rightarrow> diagnostics \<Rightarrow> (string \<times> string) list \<Rightarrow> bool \<times> diagnostics" where
  "load_models hw self [] = (True, self)"
| "load_models hw self (entry # entries) =
    (case load_hef hw (snd entry) of
       Path_exception e \<Rightarrow> (False, self)
     | File_not_found \<Rightarrow> load_models hw (load_model hw self entry) entries
     | Load_exception e \<Rightarrow> load_models hw (load_model hw self entry) entries
     | Stat_exception e \<Rightarrow> load_models hw (load_model hw self entry) entries
     | Loaded sz \<Rightarrow> load_models hw (load_model hw self entry) entries)"

text \<open>\<open>initialize\<close>: the returned flag and the object after the call.\<close>

definition initialize :: "hardware \<Rightarrow> diagnostics \<Rightarrow> bool \<times> diagnostics" where
  "initialize hw self =
    (if \<not> vdevice_ok hw then (False, self)
     else load_models hw (self\<lparr>target := Some ()\<rparr>) MODEL_PATHS)"

text \<open>\<open>self.models.get(model_name, {}).get('loaded')\<close>, as a truth value.\<close>

definition is_loaded :: "diagnostics \<Rightarrow> string \<Rightarrow> bool" where
  "is_loaded self model_name =
    (case models self model_name of None \<Rightarrow> False | Some info \<Rightarrow> loaded info)"

subsection \<open>Feature vector\<close>

text \<open>
  The vector that \<open>prepare_sensor_data\<close> hands to the backend. The sensor readings are
  numbers; the conversion of the list to an array of 32-bit floats is left to the backend.
\<close>

text \<open>\<open>sensor_data.get(key, default)\<close>\<close>

definition get_or :: "(string \<rightharpoonup> real) \<Rightarrow> string \<Rightarrow> real \<Rightarrow> real" where
  "get_or sensor_data key dflt = (case sensor_data key of None \<Rightarrow> dflt | Some v \<Rightarrow> v)"

text \<open>\<open>while len(features) < 32: features.append(0.0)\<close>\<close>

function pad_features :: "real list \<Rightarrow> real list" where
  "pad_features features =
    (if length features < 32 then pad_features (features @ [0]) else features)"
  by pat_completeness auto
termination
  by (relation "measure (\<lambda>features. 32 - length features)") auto

declare pad_features.simps [simp del]

definition prepare_sensor_data :: "(string \<rightharpoonup> real) \<Rightarrow> real list" where
  "prepare_sensor_data sensor_data =
    pad_features
      [get_or sensor_data ''supply_air_temp'' 20,
       get_or sensor_data ''return_air_temp'' 22,
       get_or sensor_data ''outside_air_temp'' 25,
       get_or sensor_data ''mixed_air_temp'' 21,
       get_or sensor_data ''supply_air_pressure'' 1.5,
       get_or sensor_data ''return_air_pressure'' 1.2,
       get_or sensor_data ''filter_pressure_drop'' 0.3,
       get_or sensor_data ''supply_air_flow'' 1000,
       get_or sensor_data ''return_air_flow'' 950,
       get_or sensor_data ''compressor_current'' 15,
       get_or sensor_data ''fan_motor_current'' 5,
       get_or sensor_data ''power_consumption'' 3500,
       get_or sensor_data ''supply_air_humidity'' 45,
       get_or sensor_data ''return_air_humidity'' 50,
       get_or sensor_data ''setpoint_temp'' 22,
       get_or sensor_data ''damper_position'' 50,
       get_or sensor_data ''valve_position'' 30,
       get_or sensor_data ''compressor_status'' 0,
       get_or sensor_data ''fan_status'' 1]"

subsection \<open>Per-model results\<close>

datatype model_result =
    Success (fault_detected: bool) (confidence: real) (diagnosis: string)
            (inference_time_ms: "real option") (total_ensemble_time_ms: "real option")
  | Failure (error: string)

text \<open>\<open>'confidence' in r\<close>\<close>

fun has_confidence :: "model_result \<Rightarrow> bool" where
  "has_confidence (Success fd c d t tt) = True"
| "has_confidence (Failure e) = False"

text \<open>\<open>r.get('fault_detected', False)\<close>\<close>

fun get_fault_detected :: "model_result \<Rightarrow> bool" where
  "get_fault_detected (Success fd c d t tt) = fd"
| "get_fault_detected (Failure e) = False"

text \<open>\<open>r.get('confidence', 0)\<close>\<close>

fun get_confidence :: "model_result \<Rightarrow> real" where
  "get_confidence (Success fd c d t tt) = c"
| "get_confidence (Failure e) = 0"

datatype py_error = KeyError string | TypeError string

text \<open>\<open>r['diagnosis']\<close>\<close>

fun get_diagnosis :: "model_result \<Rightarrow> py_error + string" where
  "get_diagnosis (Success fd c d t tt) = Inr d"
| "get_diagnosis (Failure e) = Inl (KeyError ''diagnosis'')"

subsection \<open>Diagnosis interpreter\<close>

definition diagnoses :: "real \<Rightarrow> (string \<times> string) list" where
  "diagnoses fault_prob =
    [(''apollo'', if fault_prob < 0.5 then ''System coordination normal''
                  else ''System coordination issue detected''),
     (''aquilo'', if fault_prob < 0.5 then ''Electrical systems normal''
                  else ''Electrical fault detected''),
     (''boreas'', if fault_prob < 0.5 then ''Refrigeration normal''
                  else ''Refrigeration issue detected''),
     (''naiad'', if fault_prob < 0.5 then ''Flow systems normal''
                 else ''Flow restriction detected''),
     (''vulcan'', if fault_prob < 0.5 then ''Mechanical systems normal''
                  else ''Mechanical fault detected''),
     (''zephyrus'', if fault_prob < 0.5 then ''Airflow normal''
                    else ''Airflow issue detected''),
     (''colossus'', if fault_prob < 0.5 then ''No pattern anomalies''
                    else ''Pattern anomaly detected''),
     (''gaia'', if fault_prob < 0.5 then ''Safety parameters normal''
                else ''Safety concern detected'')]"

definition interpret_diagnosis :: "string \<Rightarrow> real \<Rightarrow> string" where
  "interpret_diagnosis model_name fault_prob =
    (case map_of (diagnoses fault_prob) model_name of
       None \<Rightarrow> ''Unknown''
     | Some d \<Rightarrow> d)"

subsection \<open>Consensus aggregator\<close>

record consensus_result =
  final_diagnosis :: string
  consensus :: real

text \<open>
  \<open>max(faults, key=...)\<close> on a non-empty list: the first element whose key no later element
  exceeds; a later element replaces the current one only when its key is strictly greater.
\<close>

fun max_from :: "('a \<Rightarrow> real) \<Rightarrow> 'a \<Rightarrow> 'a list \<Rightarrow> 'a" where
  "max_from key best [] = best"
| "max_from key best (x # xs) = max_from key (if key best < key x then x else best) xs"

definition aggregate_diagnoses :: "(string \<times> model_result) list \<Rightarrow> py_error + consensus_result" where
  "aggregate_diagnoses results =
    (let valid_results = filter has_confidence (map snd results) in
     if valid_results = [] then
       Inr \<lparr>final_diagnosis = ''Unable to complete diagnosis'', consensus = 0\<rparr>
     else
       let fault_votes = length (filter get_fault_detected valid_results);
           consensus = real fault_votes / real (length valid_results)
       in
         if consensus > 0.7 then
           (case filter (\<lambda>(k, v). get_fault_detected v) results of
              f # fs \<Rightarrow>
                (case get_diagnosis (snd (max_from (\<lambda>x. get_confidence (snd x)) f fs)) of
                   Inl e \<Rightarrow> Inl e
                 | Inr d \<Rightarrow>
                     Inr \<lparr>final_diagnosis = ''FAULT DETECTED: '' @ d, consensus = consensus\<rparr>)
            | [] \<Rightarrow>
                Inr \<lparr>final_diagnosis = ''Multiple system issues detected'',
                     consensus = consensus\<rparr>)
         else if consensus > 0.3 then
           Inr \<lparr>final_diagnosis = ''Potential issue detected - monitoring recommended'',
                consensus = consensus\<rparr>
         else
           Inr \<lparr>final_diagnosis = ''System operating normally'', consensus = consensus\<rparr>)"

subsection \<open>Inference backend\<close>

text \<open>
  The first row of the output stream, \<open>output[output_vstream_info.name][0]\<close>, as the callers
  of \<open>run_inference\<close> read it. \<open>run_inference\<close> returns the row without looking at its shape:
  \<^item> \<open>Scalars xs\<close>: \<open>len(output)\<close> is the length of \<open>xs\<close> and \<open>float(output[0])\<close> is its first
    element;
  \<^item> \<open>Unreadable msg\<close>: \<open>len(output)\<close> or \<open>float(output[0])\<close> raises a \<open>TypeError\<close> with that
    message (a row without a length, or a row of several dimensions whose first element is not
    one scalar).
\<close>

datatype backend_row = Scalars "real list" | Unreadable string

text \<open>
  The HailoRT pipeline of \<open>run_inference\<close>, for the network group of the named model and the
  feature vector: \<open>Some\<close> of the first row of the output stream, or \<open>None\<close> when anything
  inside the \<open>try\<close> raises.
\<close>

type_synonym backend = "string \<Rightarrow> real list \<Rightarrow> backend_row option"

definition run_inference ::
  "diagnostics \<Rightarrow> backend \<Rightarrow> string \<Rightarrow> real list \<Rightarrow> backend_row option" where
  "run_inference self infer model_name input_data =
    (if model_name \<notin> network_groups self then None else infer model_name input_data)"

text \<open>
  \<open>float(output[0]) if len(output) > 0 else 0.0\<close>, which is outside the \<open>try\<close> of
  \<open>run_inference\<close>.
\<close>

fun fault_prob_of :: "backend_row \<Rightarrow> py_error + real" where
  "fault_prob_of (Scalars xs) = Inr (if length xs > 0 then xs ! 0 else 0)"
| "fault_prob_of (Unreadable msg) = Inl (TypeError msg)"

subsection \<open>Ensemble executor\<close>

text \<open>
  The body of the sequential loop of \<open>diagnose\<close>: the value stored under \<open>model_name\<close>, or the
  exception raised while the row is read.
\<close>

definition sequential_result ::
  "diagnostics \<Rightarrow> backend \<Rightarrow> real list \<Rightarrow> string \<Rightarrow> py_error + model_result" where
  "sequential_result self infer input_data model_name =
    (if is_loaded self model_name then
       (case run_inference self infer model_name input_data of
          Some output \<Rightarrow>
            (case fault_prob_of output of
               Inl e \<Rightarrow> Inl e
             | Inr fault_prob \<Rightarrow>
                 Inr (Success (fault_prob > 0.5) fault_prob
                        (interpret_diagnosis model_name fault_prob) None None))
        | None \<Rightarrow> Inr (Failure ''Inference failed''))
     else Inr (Failure ''Model not loaded''))"

text \<open>
  \<open>for model_name in MODEL_PATHS.keys(): results[model_name] = ...\<close>, from the keys that remain
  and the results so far; an exception leaves the loop.
\<close>

fun sequential_loop_from ::
  "diagnostics \<Rightarrow> backend \<Rightarrow> real list \<Rightarrow> string list \<Rightarrow> (string \<times> model_result) list
    \<Rightarrow> py_error + (string \<times> model_result) list" where
  "sequential_loop_from self infer input_data [] results = Inr results"
| "sequential_loop_from self infer input_data (model_name # keys) results =
    (case sequential_result self infer input_data model_name of
       Inl e \<Rightarrow> Inl e
     | Inr r \<Rightarrow>
         sequential_loop_from self infer input_data keys (AList.update model_name r results))"

definition sequential_loop ::
  "diagnostics \<Rightarrow> backend \<Rightarrow> real list \<Rightarrow> py_error + (string \<times> model_result) list" where
  "sequential_loop self infer input_data =
    sequential_loop_from self infer input_data MODEL_KEYS []"

text \<open>
  What one run of \<open>run_simultaneous_inference\<close> observes of its threads and of the wall clock:
  for the thread of each model the position at which it takes the lock (threads with the same
  position take it in the order in which they were started), the value
  \<open>round(inference_time, 2)\<close> each thread measured, and \<open>round(total_time, 2)\<close>.
\<close>

record clock =
  lock_order :: "string \<Rightarrow> nat"
  inference_time :: "string \<Rightarrow> real"
  total_time :: real

text \<open>
  One thread is started for each key of \<open>MODEL_PATHS\<close>, in that order, and all are joined; this
  is the order in which they reach the lock.
\<close>

definition completion_order :: "clock \<Rightarrow> string list" where
  "completion_order clk = sort_key (lock_order clk) MODEL_KEYS"

text \<open>
  The thread function \<open>run_model\<close>: the value it stores under \<open>model_name\<close>, or the exception
  raised while the row is read, which ends the thread before it stores anything.
\<close>

definition run_model ::
  "diagnostics \<Rightarrow> backend \<Rightarrow> clock \<Rightarrow> real list \<Rightarrow> string \<Rightarrow> py_error + model_result" where
  "run_model self infer clk input_data model_name =
    (if is_loaded self model_name then
       (case run_inference self infer model_name input_data of
          Some output \<Rightarrow>
            (case fault_prob_of output of
               Inl e \<Rightarrow> Inl e
             | Inr fault_prob \<Rightarrow>
                 Inr (Success (fault_prob > 0.5) fault_prob
                        (interpret_diagnosis model_name fault_prob)
                        (Some (inference_time clk model_name)) None))
        | None \<Rightarrow> Inr (Failure ''Inference failed''))
     else Inr (Failure ''Model not loaded''))"

text \<open>
  The effect of one thread on the shared \<open>results\<close>: \<open>results[model_name] = ...\<close> under the
  lock, or nothing when the thread ended with an exception.
\<close>

definition thread_write ::
  "diagnostics \<Rightarrow> backend \<Rightarrow> clock \<Rightarrow> real list \<Rightarrow> (string \<times> model_result) list \<Rightarrow> string
    \<Rightarrow> (string \<times> model_result) list" where
  "thread_write self infer clk input_data results model_name =
    (case run_model self infer clk input_data model_name of
       Inl e \<Rightarrow> results
     | Inr r \<Rightarrow> AList.update model_name r results)"

text \<open>
  \<open>if 'error' not in results[model_name]: results[model_name]['total_ensemble_time_ms'] = ...\<close>
\<close>

fun add_total_time :: "real \<Rightarrow> model_result \<Rightarrow> model_result" where
  "add_total_time ms (Success fd c d t tt) = Success fd c d t (Some ms)"
| "add_total_time ms (Failure e) = Failure e"

definition run_simultaneous_inference ::
  "diagnostics \<Rightarrow> backend \<Rightarrow> clock \<Rightarrow> real list \<Rightarrow> (string \<times> model_result) list" where
  "run_simultaneous_inference self infer clk input_data =
    (let results = foldl (thread_write self infer clk input_data) [] (completion_order clk)
     in map (\<lambda>(model_name, r). (model_name, add_total_time (total_time clk) r)) results)"

record ensemble_report =
  report_models :: "(string \<times> model_result) list"
  report_final :: consensus_result
  report_mode :: string

text \<open>
  \<open>diagnose(self, sensor_data, mode='sequential')\<close>: \<open>mode_arg\<close> is \<open>None\<close> when the caller
  passes no mode.
\<close>

definition diagnose ::
  "diagnostics \<Rightarrow> backend \<Rightarrow> clock \<Rightarrow> (string \<rightharpoonup> real) \<Rightarrow> string option
    \<Rightarrow> py_error + ensemble_report" where
  "diagnose self infer clk sensor_data mode_arg =
    (let mode = (case mode_arg of None \<Rightarrow> ''sequential'' | Some m \<Rightarrow> m);
         input_data = prepare_sensor_data sensor_data
     in
       case (if mode = ''simultaneous''
             then Inr (run_simultaneous_inference self infer clk input_data)
             else sequential_loop self infer input_data) of
         Inl e \<Rightarrow> Inl e
       | Inr results \<Rightarrow>
           (case aggregate_diagnoses results of
              Inl e \<Rightarrow> Inl e
            | Inr final \<Rightarrow>
                Inr \<lparr>report_models = results, report_final = final, report_mode = mode\<rparr>))"

subsection \<open>Command line\<close>

text \<open>
  What \<open>main\<close> prints, and its exit status. The \<open>status\<close> and \<open>models\<close> commands print
  device telemetry and file sizes, which are not modelled.
\<close>

datatype main_output =
    Json_error string
  | Json_report ensemble_report
  | Json_status
  | Json_models

text \<open>\<open>str(e)\<close>: the repr of the key for a \<open>KeyError\<close>, the message for a \<open>TypeError\<close>.\<close>

fun py_str :: "py_error \<Rightarrow> string" where
  "py_str (KeyError k) = CHR 0x27 # k @ [CHR 0x27]"
| "py_str (TypeError msg) = msg"

text \<open>
  \<open>main\<close>, with \<open>sys.argv\<close>, \<open>json.loads\<close> (\<open>None\<close> for a \<open>JSONDecodeError\<close>), the hardware,
  the backend and the clock as parameters.
\<close>

definition main ::
  "string list \<Rightarrow> (string \<Rightarrow> (string \<rightharpoonup> real) option) \<Rightarrow> hardware \<Rightarrow> backend \<Rightarrow> clock
    \<Rightarrow> main_output \<times> nat" where
  "main argv json_loads hw infer clk =
    (if length argv < 2 then (Json_error ''No command specified'', 1)
     else
       let command = argv ! 1;
           diag = init_diagnostics
       in
         if command = ''status'' then (Json_status, 0)
         else if command = ''models'' then (Json_models, 0)
         else if command = ''diagnose'' then
           (if length argv < 3 then (Json_error ''No sensor data provided'', 1)
            else
              (case json_loads (argv ! 2) of
                 None \<Rightarrow> (Json_error ''Invalid JSON sensor data'', 0)
               | Some sensor_data \<Rightarrow>
                   (let mode = (if length argv > 3 then argv ! 3 else ''simultaneous'') in
                    case initialize hw diag of
                      (True, diag') \<Rightarrow>
                        (case diagnose diag' infer clk sensor_data (Some mode) of
                           Inr result \<Rightarrow> (Json_report result, 0)
                         | Inl e \<Rightarrow> (Json_error (py_str e), 0))
                    | (False, diag') \<Rightarrow>
                        (Json_error ''Failed to initialize Hailo device'', 0))))
         else (Json_error (''Unknown command: '' @ command), 0))"

subsection \<open>Notions used by the properties\<close>

text \<open>The results that carry a confidence value, in the order of the result mapping.\<close>

definition valid_results :: "(string \<times> model_result) list \<Rightarrow> model_result list" where
  "valid_results results = filter has_confidence (map snd results)"

text \<open>The entries of the result mapping that are flagged as faults, in the order of the mapping.\<close>

definition fault_flagged :: "(string \<times> model_result) list \<Rightarrow> (string \<times> model_result) list" where
  "fault_flagged results = filter (\<lambda>x. get_fault_detected (snd x)) results"

text \<open>
  The number of confidence-bearing results flagged as faults, divided by the number of
  confidence-bearing results.
\<close>

definition vote_ratio :: "(string \<times> model_result) list \<Rightarrow> real" where
  "vote_ratio results =
    real (length (filter get_fault_detected (valid_results results))) /
    real (length (valid_results results))"

text \<open>The keys of the results that carry a confidence value: the models that vote.\<close>

definition confidence_bearing :: "(string \<times> model_result) list \<Rightarrow> string list" where
  "confidence_bearing results = map fst (filter (\<lambda>x. has_confidence (snd x)) results)"

subsection \<open>Sample inputs\<close>

definition sample_results :: "(string \<times> model_result) list" where
  "sample_results =
     [(''apollo'', Success True 0.9 ''System coordination issue detected'' None None),
      (''aquilo'', Success True 0.95 ''Electrical fault detected'' None None),
      (''boreas'', Failure ''Inference failed''),
      (''naiad'', Success False 0.1 ''Flow systems normal'' None None),
      (''vulcan'', Success True 0.95 ''Mechanical fault detected'' None None)]"

text \<open>A device on which only the HEF files of \<open>apollo\<close> and \<open>aquilo\<close> exist and load.\<close>

definition sample_load_hef :: "string \<Rightarrow> load_outcome" where
  "sample_load_hef model_path =
    (if model_path = ''/home/Automata/mydata/apollo-nexus/models/apollo_simple.hef''
       then Loaded 1.5
     else if model_path = ''/home/Automata/mydata/apollo-nexus/models/aquilo_simple.hef''
       then Loaded 2
     else File_not_found)"

definition sample_hardware :: hardware where
  "sample_hardware = \<lparr>vdevice_ok = True, load_hef = sample_load_hef\<rparr>"

text \<open>The object after \<open>initialize\<close> on that device.\<close>

definition sample_diagnostics :: diagnostics where
  "sample_diagnostics =
    \<lparr>target = Some (),
     models =
       [''apollo'' \<mapsto> \<lparr>loaded = True,
           path = ''/home/Automata/mydata/apollo-nexus/models/apollo_simple.hef'',
           load_error = None, size_mb = Some 1.5\<rparr>,
        ''aquilo'' \<mapsto> \<lparr>loaded = True,
           path = ''/home/Automata/mydata/apollo-nexus/models/aquilo_simple.hef'',
           load_error = None, size_mb = Some 2\<rparr>,
        ''boreas'' \<mapsto> \<lparr>loaded = False,
           path = ''/home/Automata/mydata/apollo-nexus/models/boreas_simple.hef'',
           load_error = Some ''File not found'', size_mb = None\<rparr>,
        ''naiad'' \<mapsto> \<lparr>loaded = False,
           path = ''/home/Automata/mydata/apollo-nexus/models/naiad_simple.hef'',
           load_error = Some ''File not found'', size_mb = None\<rparr>,
        ''vulcan'' \<mapsto> \<lparr>loaded = False,
           path = ''/home/Automata/mydata/apollo-nexus/models/vulcan_simple.hef'',
           load_error = Some ''File not found'', size_mb = None\<rparr>,
        ''zephyrus'' \<mapsto> \<lparr>loaded = False,
           path = ''/home/Automata/mydata/apollo-nexus/models/zephyrus_simple.hef'',
           load_error = Some ''File not found'', size_mb = None\<rparr>,
        ''colossus'' \<mapsto> \<lparr>loaded = False,
           path = ''/home/Automata/mydata/apollo-nexus/models/colossus_simple.hef'',
           load_error = Some ''File not found'', size_mb = None\<rparr>,
        ''gaia'' \<mapsto> \<lparr>loaded = False,
           path = ''/home/Automata/mydata/apollo-nexus/models/gaia_simple.hef'',
           load_error = Some ''File not found'', size_mb = None\<rparr>],
     network_groups = {''aquilo'', ''apollo''}\<rparr>"

text \<open>A device on which no HEF file exists.\<close>

definition no_files_load_hef :: "string \<Rightarrow> load_outcome" where
  "no_files_load_hef model_path = File_not_found"

definition no_files_hardware :: hardware where
  "no_files_hardware = \<lparr>vdevice_ok = True, load_hef = no_files_load_hef\<rparr>"

text \<open>A host without a device.\<close>

definition no_device_hardware :: hardware where
  "no_device_hardware = \<lparr>vdevice_ok = False, load_hef = no_files_load_hef\<rparr>"

text \<open>
  A device on which the first two models load and \<open>path.exists()\<close> raises for the third
  path.
\<close>

definition unsearchable_load_hef :: "string \<Rightarrow> load_outcome" where
  "unsearchable_load_hef model_path =
    (if model_path = ''/home/Automata/mydata/apollo-nexus/models/apollo_simple.hef''
       then Loaded 1.5
     else if model_path = ''/home/Automata/mydata/apollo-nexus/models/aquilo_simple.hef''
       then Loaded 2
     else Path_exception ''[Errno 13] Permission denied'')"

definition unsearchable_hardware :: hardware where
  "unsearchable_hardware = \<lparr>vdevice_ok = True, load_hef = unsearchable_load_hef\<rparr>"

text \<open>The object after \<open>initialize\<close> on that device.\<close>

definition unsearchable_diagnostics :: diagnostics where
  "unsearchable_diagnostics =
    \<lparr>target = Some (),
     models =
       [''apollo'' \<mapsto> \<lparr>loaded = True,
           path = ''/home/Automata/mydata/apollo-nexus/models/apollo_simple.hef'',
           load_error = None, size_mb = Some 1.5\<rparr>,
        ''aquilo'' \<mapsto> \<lparr>loaded = True,
           path = ''/home/Automata/mydata/apollo-nexus/models/aquilo_simple.hef'',
           load_error = None, size_mb = Some 2\<rparr>],
     network_groups = {''aquilo'', ''apollo''}\<rparr>"

text \<open>
  A backend that returns an empty output for \<open>apollo\<close> and a two-scalar output for every other
  model, and one that differs from it only in raising for \<open>aquilo\<close>.
\<close>

definition sample_backend :: backend where
  "sample_backend model_name input_data =
    (if model_name = ''apollo'' then Some (Scalars []) else Some (Scalars [0.9, 0.2]))"

definition failing_backend :: backend where
  "failing_backend model_name input_data =
    (if model_name = ''aquilo'' then None else sample_backend model_name input_data)"

text \<open>
  A backend that raises for \<open>aquilo\<close> and returns a two-scalar output for every other model.
\<close>

definition raising_backend :: backend where
  "raising_backend model_name input_data =
    (if model_name = ''aquilo'' then None else Some (Scalars [0.9, 0.2]))"

text \<open>
  A backend whose row for \<open>apollo\<close> cannot be read as scalars (a row of several dimensions,
  on which \<open>float(output[0])\<close> raises), and a two-scalar output for every other model.
\<close>

definition unreadable_backend :: backend where
  "unreadable_backend model_name input_data =
    (if model_name = ''apollo''
     then Some (Unreadable ''only length-1 arrays can be converted to Python scalars'')
     else Some (Scalars [0.9, 0.2]))"

text \<open>A backend whose output for every model is the single scalar \<open>0.5\<close>.\<close>

definition half_backend :: backend where
  "half_backend model_name input_data = Some (Scalars [0.5])"

text \<open>A run in which the threads reach the lock in reverse registry order.\<close>

definition sample_lock_order :: "string \<Rightarrow> nat" where
  "sample_lock_order model_name =
    (if model_name = ''gaia'' then 0
     else if model_name = ''colossus'' then 1
     else if model_name = ''zephyrus'' then 2
     else if model_name = ''vulcan'' then 3
     else if model_name = ''naiad'' then 4
     else if model_name = ''boreas'' then 5
     else if model_name = ''aquilo'' then 6
     else 7)"

definition sample_inference_time :: "string \<Rightarrow> real" where
  "sample_inference_time model_name = 12.5"

definition sample_clock :: clock where
  "sample_clock =
    \<lparr>lock_order = sample_lock_order,
     inference_time = sample_inference_time,
     total_time = 14.25\<rparr>"

definition sample_json_loads :: "string \<Rightarrow> (string \<rightharpoonup> real) option" where
  "sample_json_loads text =
    (if text = ''{}'' then Some Map.empty else None)"

text \<open>
  The results of the sample device with the sample backend: in sequential mode, and in
  simultaneous mode under the sample clock.
\<close>

definition sample_sequential_models :: "(string \<times> model_result) list" where
  "sample_sequential_models =
    [(''apollo'', Success False 0 ''System coordination normal'' None None),
     (''aquilo'', Success True 0.9 ''Electrical fault detected'' None None),
     (''boreas'', Failure ''Model not loaded''),
     (''naiad'', Failure ''Model not loaded''),
     (''vulcan'', Failure ''Model not loaded''),
     (''zephyrus'', Failure ''Model not loaded''),
     (''colossus'', Failure ''Model not loaded''),
     (''gaia'', Failure ''Model not loaded'')]"

definition sample_simultaneous_models :: "(string \<times> model_result) list" where
  "sample_simultaneous_models =
    [(''gaia'', Failure ''Model not loaded''),
     (''colossus'', Failure ''Model not loaded''),
     (''zephyrus'', Failure ''Model not loaded''),
     (''vulcan'', Failure ''Model not loaded''),
     (''naiad'', Failure ''Model not loaded''),
     (''boreas'', Failure ''Model not loaded''),
     (''aquilo'', Success True 0.9 ''Electrical fault detected'' (Some 12.5) (Some 14.25)),
     (''apollo'', Success False 0 ''System coordination normal'' (Some 12.5) (Some 14.25))]"

definition sample_final :: consensus_result where
  "sample_final =
    \<lparr>final_diagnosis = ''Potential issue detected - monitoring recommended'',
     consensus = 1 / 2\<rparr>"

text \<open>The results on the device without HEF files, under the sample clock.\<close>

definition not_loaded_models :: "(string \<times> model_result) list" where
  "not_loaded_models =
    [(''gaia'', Failure ''Model not loaded''),
     (''colossus'', Failure ''Model not loaded''),
     (''zephyrus'', Failure ''Model not loaded''),
     (''vulcan'', Failure ''Model not loaded''),
     (''naiad'', Failure ''Model not loaded''),
     (''boreas'', Failure ''Model not loaded''),
     (''aquilo'', Failure ''Model not loaded''),
     (''apollo'', Failure ''Model not loaded'')]"

text \<open>The sequential results of the sample device with the backend that raises for \<open>aquilo\<close>.\<close>

definition failing_sequential_models :: "(string \<times> model_result) list" where
  "failing_sequential_models =
    [(''apollo'', Success False 0 ''System coordination normal'' None None),
     (''aquilo'', Failure ''Inference failed''),
     (''boreas'', Failure ''Model not loaded''),
     (''naiad'', Failure ''Model not loaded''),
     (''vulcan'', Failure ''Model not loaded''),
     (''zephyrus'', Failure ''Model not loaded''),
     (''colossus'', Failure ''Model not loaded''),
     (''gaia'', Failure ''Model not loaded'')]"

definition failing_final :: consensus_result where
  "failing_final = \<lparr>final_diagnosis = ''System operating normally'', consensus = 0\<rparr>"

text \<open>
  The sequential results of the sample device with the backend that raises for \<open>aquilo\<close> and
  returns a fault for \<open>apollo\<close>.
\<close>

definition raising_sequential_models :: "(string \<times> model_result) list" where
  "raising_sequential_models =
    [(''apollo'', Success True 0.9 ''System coordination issue detected'' None None),
     (''aquilo'', Failure ''Inference failed''),
     (''boreas'', Failure ''Model not loaded''),
     (''naiad'', Failure ''Model not loaded''),
     (''vulcan'', Failure ''Model not loaded''),
     (''zephyrus'', Failure ''Model not loaded''),
     (''colossus'', Failure ''Model not loaded''),
     (''gaia'', Failure ''Model not loaded'')]"

definition raising_final :: consensus_result where
  "raising_final =
    \<lparr>final_diagnosis = ''FAULT DETECTED: System coordination issue detected'',
     consensus = 1\<rparr>"

text \<open>
  The simultaneous results of the sample device with the backend whose row for \<open>apollo\<close>
  cannot be read, under the sample clock.
\<close>

definition unreadable_simultaneous_models :: "(string \<times> model_result) list" where
  "unreadable_simultaneous_models =
    [(''gaia'', Failure ''Model not loaded''),
     (''colossus'', Failure ''Model not loaded''),
     (''zephyrus'', Failure ''Model not loaded''),
     (''vulcan'', Failure ''Model not loaded''),
     (''naiad'', Failure ''Model not loaded''),
     (''boreas'', Failure ''Model not loaded''),
     (''aquilo'', Success True 0.9 ''Electrical fault detected'' (Some 12.5) (Some 14.25))]"

definition unreadable_final :: consensus_result where
  "unreadable_final =
    \<lparr>final_diagnosis = ''FAULT DETECTED: Electrical fault detected'', consensus = 1\<rparr>"

subsection \<open>Consensus aggregator: lemmas\<close>

lemma max_from_first_max:
  "\<exists>pre m post. b # xs = pre @ m # post \<and> max_from key b xs = m \<and>
     (\<forall>y\<in>set pre. key y < key m) \<and> (\<forall>y\<in>set post. key y \<le> key m)"
proof (induction xs arbitrary: b)
  case Nil
  have "[b] = [] @ b # [] \<and> max_from key b [] = b \<and>
     (\<forall>y\<in>set []. key y < key b) \<and> (\<forall>y\<in>set []. key y \<le> key b)" by simp
  then show ?case by blast
next
  case (Cons x xs)
  let ?b = "if key b < key x then x else b"
  from Cons.IH [of ?b] obtain pre m post where
    split: "?b # xs = pre @ m # post" and res: "max_from key ?b xs = m" and
    lt: "\<forall>y\<in>set pre. key y < key m" and le: "\<forall>y\<in>set post. key y \<le> key m"
    by blast
  show ?case
  proof (cases pre)
    case Nil
    with split have m: "m = ?b" and post: "post = xs" by simp_all
    show ?thesis
    proof (cases "key b < key x")
      case True
      with m post res le have "b # x # xs = [b] @ m # post \<and> max_from key b (x # xs) = m \<and>
        (\<forall>y\<in>set [b]. key y < key m) \<and> (\<forall>y\<in>set post. key y \<le> key m)" by simp
      then show ?thesis by blast
    next
      case False
      with m post res le have "b # x # xs = [] @ m # (x # post) \<and> max_from key b (x # xs) = m \<and>
        (\<forall>y\<in>set []. key y < key m) \<and> (\<forall>y\<in>set (x # post). key y \<le> key m)" by simp
      then show ?thesis by blast
    qed
  next
    case (Cons p pre')
    with split have p: "p = ?b" and xs: "xs = pre' @ m # post" by simp_all
    from lt Cons p have bm: "key ?b < key m" by simp
    from lt Cons have lt': "\<forall>y\<in>set pre'. key y < key m" by simp
    have "key b < key m" "key x < key m" using bm by (auto split: if_splits)
    with xs res lt' le have "b # x # xs = (b # x # pre') @ m # post \<and> max_from key b (x # xs) = m \<and>
        (\<forall>y\<in>set (b # x # pre'). key y < key m) \<and> (\<forall>y\<in>set post. key y \<le> key m)" by simp
    then show ?thesis by blast
  qed
qed

lemma flagged_is_success:
  "get_fault_detected r \<Longrightarrow> \<exists>c d t tt. r = Success True c d t tt"
  by (cases r) auto

lemma vote_ratio_bounds:
  assumes "valid_results results \<noteq> []"
  shows "0 \<le> vote_ratio results" and "vote_ratio results \<le> 1"
  using assms by (simp_all add: vote_ratio_def divide_le_eq_1)

lemma fault_flagged_filter:
  "filter (\<lambda>(k, v). get_fault_detected v) results = fault_flagged results"
  by (simp add: fault_flagged_def case_prod_unfold)

lemma aggregate_no_valid:
  "valid_results results = [] \<Longrightarrow>
     aggregate_diagnoses results =
       Inr \<lparr>final_diagnosis = ''Unable to complete diagnosis'', consensus = 0\<rparr>"
  by (simp add: aggregate_diagnoses_def valid_results_def)

lemma aggregate_low:
  assumes "valid_results results \<noteq> []" and "\<not> vote_ratio results > 0.7"
    and "\<not> vote_ratio results > 0.3"
  shows "aggregate_diagnoses results =
       Inr \<lparr>final_diagnosis = ''System operating normally'', consensus = vote_ratio results\<rparr>"
  using assms by (simp add: aggregate_diagnoses_def valid_results_def vote_ratio_def Let_def)

lemma aggregate_mid:
  assumes "valid_results results \<noteq> []" and "\<not> vote_ratio results > 0.7"
    and "vote_ratio results > 0.3"
  shows "aggregate_diagnoses results =
       Inr \<lparr>final_diagnosis = ''Potential issue detected - monitoring recommended'',
            consensus = vote_ratio results\<rparr>"
  using assms by (simp add: aggregate_diagnoses_def valid_results_def vote_ratio_def Let_def)

lemma aggregate_high_none:
  assumes "valid_results results \<noteq> []" and "vote_ratio results > 0.7"
    and "fault_flagged results = []"
  shows "aggregate_diagnoses results =
       Inr \<lparr>final_diagnosis = ''Multiple system issues detected'',
            consensus = vote_ratio results\<rparr>"
  using assms fault_flagged_filter [of results]
  by (simp add: aggregate_diagnoses_def valid_results_def vote_ratio_def Let_def)

lemma aggregate_high_some:
  assumes ne: "valid_results results \<noteq> []" and high: "vote_ratio results > 0.7"
    and flagged: "fault_flagged results \<noteq> []"
  shows "\<exists>pre k c d t tt post.
           fault_flagged results = pre @ (k, Success True c d t tt) # post \<and>
           (\<forall>x\<in>set pre. get_confidence (snd x) < c) \<and>
           (\<forall>x\<in>set post. get_confidence (snd x) \<le> c) \<and>
           aggregate_diagnoses results =
             Inr \<lparr>final_diagnosis = ''FAULT DETECTED: '' @ d, consensus = vote_ratio results\<rparr>"
proof -
  from flagged obtain f fs where Cons: "fault_flagged results = f # fs"
    by (cases "fault_flagged results") auto
  from max_from_first_max [of f fs "\<lambda>x. get_confidence (snd x)"]
  obtain pre m post where
    split: "f # fs = pre @ m # post" and
    res: "max_from (\<lambda>x. get_confidence (snd x)) f fs = m" and
    lt: "\<forall>y\<in>set pre. get_confidence (snd y) < get_confidence (snd m)" and
    le: "\<forall>y\<in>set post. get_confidence (snd y) \<le> get_confidence (snd m)"
    by blast
  have "m \<in> set (fault_flagged results)" using Cons split by simp
  then have "get_fault_detected (snd m)" by (simp add: fault_flagged_def)
  then obtain cm d t tt where m: "snd m = Success True cm d t tt"
    using flagged_is_success by blast
  then have m': "m = (fst m, Success True cm d t tt)" by (metis prod.collapse)
  have agg: "aggregate_diagnoses results =
    Inr \<lparr>final_diagnosis = ''FAULT DETECTED: '' @ d, consensus = vote_ratio results\<rparr>"
    using ne high Cons fault_flagged_filter [of results] res m
    by (simp add: aggregate_diagnoses_def valid_results_def vote_ratio_def Let_def)
  have "fault_flagged results = pre @ (fst m, Success True cm d t tt) # post \<and>
              (\<forall>x\<in>set pre. get_confidence (snd x) < cm) \<and>
              (\<forall>x\<in>set post. get_confidence (snd x) \<le> cm)"
    using Cons split lt le m m' by simp
  with agg show ?thesis by blast
qed

lemma aggregate_diagnoses_returns:
  "\<exists>final. aggregate_diagnoses results = Inr final"
proof (cases "valid_results results = []")
  case True
  then show ?thesis using aggregate_no_valid by blast
next
  case ne: False
  show ?thesis
  proof (cases "vote_ratio results > 0.7")
    case high: True
    show ?thesis
    proof (cases "fault_flagged results = []")
      case True
      with ne high show ?thesis using aggregate_high_none by blast
    next
      case False
      with ne high show ?thesis using aggregate_high_some [of results] by blast
    qed
  next
    case False
    with ne show ?thesis
      using aggregate_mid [of results] aggregate_low [of results] by blast
  qed
qed

lemma high_vote_has_flagged:
  assumes "valid_results results \<noteq> []" and "vote_ratio results > 0"
  shows "fault_flagged results \<noteq> []"
proof
  assume "fault_flagged results = []"
  then have "\<forall>x\<in>set results. \<not> get_fault_detected (snd x)"
    by (simp add: fault_flagged_def filter_empty_conv)
  then have "filter get_fault_detected (valid_results results) = []"
    by (auto simp: valid_results_def filter_empty_conv)
  with assms show False by (simp add: vote_ratio_def)
qed

lemma valid_results_filter:
  assumes "\<forall>x\<in>set results. \<not> P x \<longrightarrow> \<not> has_confidence (snd x)"
  shows "valid_results (filter P results) = valid_results results"
  using assms by (induction results) (auto simp: valid_results_def)

lemma fault_flagged_filter_keep:
  assumes "\<forall>x\<in>set results. \<not> P x \<longrightarrow> \<not> has_confidence (snd x)"
  shows "filter (\<lambda>(k, v). get_fault_detected v) (filter P results) =
         filter (\<lambda>(k, v). get_fault_detected v) results"
  using assms
proof (induction results)
  case Nil
  show ?case by simp
next
  case (Cons x results)
  obtain k v where x: "x = (k, v)" by (cases x)
  have "get_fault_detected v \<Longrightarrow> has_confidence v" by (cases v) simp_all
  with Cons x show ?case by auto
qed

text \<open>
  The aggregation does not see a result without a confidence: removing such entries from the
  mapping leaves the final result unchanged.
\<close>

lemma aggregate_ignores_failures:
  assumes "\<forall>x\<in>set results. \<not> P x \<longrightarrow> \<not> has_confidence (snd x)"
  shows "aggregate_diagnoses (filter P results) = aggregate_diagnoses results"
proof -
  have v: "filter has_confidence (map snd (filter P results)) =
           filter has_confidence (map snd results)"
    using valid_results_filter [OF assms] by (simp add: valid_results_def)
  show ?thesis
    unfolding aggregate_diagnoses_def v fault_flagged_filter_keep [OF assms] ..
qed

lemma aggregate_consensus:
  assumes ne: "valid_results results \<noteq> []"
    and agg: "aggregate_diagnoses results = Inr final"
  shows "consensus final = vote_ratio results"
proof (cases "vote_ratio results > 0.7")
  case high: True
  then have "vote_ratio results > 0" by simp
  from high_vote_has_flagged [OF ne this] have "fault_flagged results \<noteq> []" .
  from aggregate_high_some [OF ne high this] agg show ?thesis by auto
next
  case False
  with ne agg aggregate_mid [of results] aggregate_low [of results] show ?thesis
    by (cases "vote_ratio results > 0.3") auto
qed

subsection \<open>Registry, executor and command line: lemmas\<close>

lemma update_fresh: "k \<notin> fst ` set al \<Longrightarrow> AList.update k v al = al @ [(k, v)]"
  by (induction al) auto

lemma MODEL_KEYS_eq:
  "MODEL_KEYS = [''apollo'', ''aquilo'', ''boreas'', ''naiad'', ''vulcan'', ''zephyrus'',
                 ''colossus'', ''gaia'']"
  by (simp add: MODEL_KEYS_def MODEL_PATHS_def)

lemma distinct_MODEL_KEYS: "distinct MODEL_KEYS"
  by (simp add: MODEL_KEYS_eq)

lemma length_MODEL_KEYS: "length MODEL_KEYS = 8"
  by (simp add: MODEL_KEYS_eq)

text \<open>The sequential loop: it returns when no body raises, and then every key has its entry.\<close>

lemma sequential_loop_from_returns:
  assumes "distinct ms" and "set ms \<inter> fst ` set acc = {}"
    and "\<forall>m\<in>set ms. \<exists>r. sequential_result self infer input_data m = Inr r"
  shows "sequential_loop_from self infer input_data ms acc =
     Inr (acc @ map (\<lambda>m. (m, projr (sequential_result self infer input_data m))) ms)"
  using assms
proof (induction ms arbitrary: acc)
  case Nil
  show ?case by simp
next
  case (Cons m ms)
  from Cons.prems obtain r where r: "sequential_result self infer input_data m = Inr r"
    by auto
  from Cons.prems have fresh: "m \<notin> fst ` set acc" by auto
  have step: "AList.update m r acc = acc @ [(m, r)]"
    using fresh by (rule update_fresh)
  have d: "distinct ms" using Cons.prems by simp
  have disj: "set ms \<inter> fst ` set (acc @ [(m, r)]) = {}" using Cons.prems by auto
  have rest: "\<forall>m\<in>set ms. \<exists>r. sequential_result self infer input_data m = Inr r"
    using Cons.prems by simp
  from Cons.IH [OF d disj rest] r step show ?case by simp
qed

lemma sequential_loop_from_raises:
  "sequential_loop_from self infer input_data ms acc = Inl e \<Longrightarrow>
     \<exists>m\<in>set ms. sequential_result self infer input_data m = Inl e"
proof (induction ms arbitrary: acc)
  case Nil
  then show ?case by simp
next
  case (Cons m ms)
  then show ?case
    by (cases "sequential_result self infer input_data m") auto
qed

lemma sequential_loop_from_all_return:
  "sequential_loop_from self infer input_data ms acc = Inr results \<Longrightarrow>
     \<forall>m\<in>set ms. \<exists>r. sequential_result self infer input_data m = Inr r"
proof (induction ms arbitrary: acc)
  case Nil
  then show ?case by simp
next
  case (Cons m ms)
  then show ?case
    by (cases "sequential_result self infer input_data m") auto
qed

lemma sequential_loop_returns:
  assumes "\<forall>m\<in>set MODEL_KEYS. \<exists>r. sequential_result self infer input_data m = Inr r"
  shows "sequential_loop self infer input_data =
     Inr (map (\<lambda>m. (m, projr (sequential_result self infer input_data m))) MODEL_KEYS)"
  unfolding sequential_loop_def
  using sequential_loop_from_returns [OF distinct_MODEL_KEYS _ assms, of "[]"] by simp

lemma sequential_loop_eq:
  assumes "sequential_loop self infer input_data = Inr results"
  shows "results = map (\<lambda>m. (m, projr (sequential_result self infer input_data m))) MODEL_KEYS"
    and "\<forall>m\<in>set MODEL_KEYS. \<exists>r. sequential_result self infer input_data m = Inr r"
proof -
  show all: "\<forall>m\<in>set MODEL_KEYS. \<exists>r. sequential_result self infer input_data m = Inr r"
    using assms unfolding sequential_loop_def by (rule sequential_loop_from_all_return)
  from sequential_loop_returns [OF all] assms
  show "results = map (\<lambda>m. (m, projr (sequential_result self infer input_data m))) MODEL_KEYS"
    by simp
qed

lemma sequential_loop_raises:
  "sequential_loop self infer input_data = Inl e \<Longrightarrow>
     \<exists>m\<in>set MODEL_KEYS. sequential_result self infer input_data m = Inl e"
  unfolding sequential_loop_def by (rule sequential_loop_from_raises)

lemma map_of_keyed:
  "map_of (map (\<lambda>m. (m, f m)) ms) m = (if m \<in> set ms then Some (f m) else None)"
  by (induction ms) auto

lemma sequential_loop_keys:
  assumes "sequential_loop self infer input_data = Inr results"
  shows "map fst results = MODEL_KEYS"
  unfolding sequential_loop_eq(1) [OF assms] by (simp add: o_def)

lemma sequential_loop_entry:
  assumes "sequential_loop self infer input_data = Inr results"
  shows "(m, r) \<in> set results \<longleftrightarrow>
     m \<in> set MODEL_KEYS \<and> sequential_result self infer input_data m = Inr r"
  using sequential_loop_eq(2) [OF assms]
  unfolding sequential_loop_eq(1) [OF assms] by auto

lemma sequential_loop_lookup:
  assumes "sequential_loop self infer input_data = Inr results"
  shows "map_of results m =
     (if m \<in> set MODEL_KEYS
      then Some (projr (sequential_result self infer input_data m)) else None)"
  unfolding sequential_loop_eq(1) [OF assms] by (simp add: map_of_keyed)

text \<open>
  The threads: every key of \<open>MODEL_PATHS\<close> has one thread, in some order; a thread that
  raises writes nothing.
\<close>

lemma completion_order_set: "set (completion_order clk) = set MODEL_KEYS"
  by (simp add: completion_order_def)

lemma completion_order_distinct: "distinct (completion_order clk)"
  by (simp add: completion_order_def distinct_MODEL_KEYS)

lemma completion_order_length: "length (completion_order clk) = 8"
  by (simp add: completion_order_def length_MODEL_KEYS)

lemma foldl_thread_write:
  assumes "distinct ms" and "set ms \<inter> fst ` set acc = {}"
  shows "foldl (thread_write self infer clk input_data) acc ms =
     acc @ map (\<lambda>m. (m, projr (run_model self infer clk input_data m)))
             (filter (\<lambda>m. \<not> isl (run_model self infer clk input_data m)) ms)"
  using assms
proof (induction ms arbitrary: acc)
  case Nil
  show ?case by simp
next
  case (Cons m ms)
  have d: "distinct ms" using Cons.prems by simp
  show ?case
  proof (cases "run_model self infer clk input_data m")
    case (Inl e)
    then have w: "thread_write self infer clk input_data acc m = acc"
      by (simp add: thread_write_def)
    have disj: "set ms \<inter> fst ` set acc = {}" using Cons.prems by auto
    from Cons.IH [OF d disj] w Inl show ?thesis by simp
  next
    case (Inr r)
    from Cons.prems have fresh: "m \<notin> fst ` set acc" by auto
    have w: "thread_write self infer clk input_data acc m = acc @ [(m, r)]"
      using Inr update_fresh [OF fresh] by (simp add: thread_write_def)
    have disj: "set ms \<inter> fst ` set (acc @ [(m, r)]) = {}" using Cons.prems by auto
    from Cons.IH [OF d disj] w Inr show ?thesis by simp
  qed
qed

lemma run_simultaneous_inference_eq:
  "run_simultaneous_inference self infer clk input_data =
     map (\<lambda>m. (m, add_total_time (total_time clk)
                   (projr (run_model self infer clk input_data m))))
       (filter (\<lambda>m. \<not> isl (run_model self infer clk input_data m)) (completion_order clk))"
  unfolding run_simultaneous_inference_def Let_def
  using foldl_thread_write [OF completion_order_distinct, of clk "[]" self infer clk input_data]
  by simp

lemma run_simultaneous_inference_keys:
  "map fst (run_simultaneous_inference self infer clk input_data) =
     filter (\<lambda>m. \<not> isl (run_model self infer clk input_data m)) (completion_order clk)"
  by (simp add: run_simultaneous_inference_eq o_def)

lemma run_simultaneous_inference_entry:
  "(m, r) \<in> set (run_simultaneous_inference self infer clk input_data) \<longleftrightarrow>
     m \<in> set MODEL_KEYS \<and>
     (\<exists>r'. run_model self infer clk input_data m = Inr r' \<and>
           r = add_total_time (total_time clk) r')"
proof -
  have "\<not> isl x \<longleftrightarrow> (\<exists>r'. x = Inr r')" for x :: "py_error + model_result"
    by (cases x) simp_all
  then show ?thesis
    by (auto simp: run_simultaneous_inference_eq completion_order_set)
qed

lemma run_simultaneous_inference_lookup:
  "map_of (run_simultaneous_inference self infer clk input_data) m =
     (if m \<in> set MODEL_KEYS \<and> \<not> isl (run_model self infer clk input_data m)
      then Some (add_total_time (total_time clk)
                   (projr (run_model self infer clk input_data m)))
      else None)"
  by (simp add: run_simultaneous_inference_eq map_of_keyed completion_order_set)

text \<open>What an entry with a confidence says about the backend.\<close>

lemma sequential_result_Success:
  assumes "sequential_result self infer input_data m = Inr (Success fd c d t tt)"
  shows "\<exists>xs. is_loaded self m \<and> run_inference self infer m input_data = Some (Scalars xs) \<and>
           c = (case xs of [] \<Rightarrow> 0 | x # _ \<Rightarrow> x) \<and> fd = (c > 0.5) \<and>
           d = interpret_diagnosis m c \<and> t = None \<and> tt = None"
proof -
  from assms obtain row where ld: "is_loaded self m"
    and run: "run_inference self infer m input_data = Some row"
    by (auto simp: sequential_result_def split: if_splits option.splits)
  show ?thesis
  proof (cases row)
    case (Scalars xs)
    with assms ld run show ?thesis
      by (cases xs) (auto simp: sequential_result_def)
  next
    case (Unreadable msg)
    with assms ld run show ?thesis by (simp add: sequential_result_def)
  qed
qed

lemma run_model_Success:
  assumes "run_model self infer clk input_data m = Inr r"
    and "add_total_time ms r = Success fd c d t tt"
  shows "\<exists>xs. is_loaded self m \<and> run_inference self infer m input_data = Some (Scalars xs) \<and>
           c = (case xs of [] \<Rightarrow> 0 | x # _ \<Rightarrow> x) \<and> fd = (c > 0.5) \<and>
           d = interpret_diagnosis m c \<and> t = Some (inference_time clk m) \<and> tt = Some ms"
proof -
  from assms obtain row where ld: "is_loaded self m"
    and run: "run_inference self infer m input_data = Some row"
    by (auto simp: run_model_def split: if_splits option.splits)
  show ?thesis
  proof (cases row)
    case (Scalars xs)
    with assms ld run show ?thesis
      by (cases xs) (auto simp: run_model_def)
  next
    case (Unreadable msg)
    with assms ld run show ?thesis by (simp add: run_model_def)
  qed
qed

text \<open>\<open>diagnose\<close> in terms of its two paths.\<close>

lemma diagnose_simultaneous:
  "\<exists>final.
     aggregate_diagnoses
       (run_simultaneous_inference self infer clk (prepare_sensor_data sensor_data)) =
       Inr final \<and>
     diagnose self infer clk sensor_data (Some ''simultaneous'') =
       Inr \<lparr>report_models =
              run_simultaneous_inference self infer clk (prepare_sensor_data sensor_data),
            report_final = final,
            report_mode = ''simultaneous''\<rparr>"
proof -
  obtain final where
    "aggregate_diagnoses
       (run_simultaneous_inference self infer clk (prepare_sensor_data sensor_data)) =
       Inr final"
    using aggregate_diagnoses_returns by blast
  then show ?thesis by (simp add: diagnose_def Let_def)
qed

lemma diagnose_sequential:
  assumes "mode_arg \<noteq> Some ''simultaneous''"
    and "sequential_loop self infer (prepare_sensor_data sensor_data) = Inr results"
  shows "\<exists>final.
     aggregate_diagnoses results = Inr final \<and>
     diagnose self infer clk sensor_data mode_arg =
       Inr \<lparr>report_models = results, report_final = final,
            report_mode = (case mode_arg of None \<Rightarrow> ''sequential'' | Some m \<Rightarrow> m)\<rparr>"
proof -
  obtain final where "aggregate_diagnoses results = Inr final"
    using aggregate_diagnoses_returns by blast
  moreover have "(case mode_arg of None \<Rightarrow> ''sequential'' | Some m \<Rightarrow> m) \<noteq> ''simultaneous''"
    using assms(1) by (cases mode_arg) simp_all
  ultimately show ?thesis using assms(2) by (simp add: diagnose_def Let_def)
qed

lemma diagnose_sequential_raises:
  assumes "mode_arg \<noteq> Some ''simultaneous''"
    and "sequential_loop self infer (prepare_sensor_data sensor_data) = Inl e"
  shows "diagnose self infer clk sensor_data mode_arg = Inl e"
proof -
  have "(case mode_arg of None \<Rightarrow> ''sequential'' | Some m \<Rightarrow> m) \<noteq> ''simultaneous''"
    using assms(1) by (cases mode_arg) simp_all
  then show ?thesis using assms(2) by (simp add: diagnose_def Let_def)
qed

lemma diagnose_models:
  assumes "diagnose self infer clk sensor_data mode_arg = Inr report"
  shows "aggregate_diagnoses (report_models report) = Inr (report_final report)"
    and "mode_arg = Some ''simultaneous'' \<Longrightarrow>
      report_models report =
        run_simultaneous_inference self infer clk (prepare_sensor_data sensor_data)"
    and "mode_arg \<noteq> Some ''simultaneous'' \<Longrightarrow>
      sequential_loop self infer (prepare_sensor_data sensor_data) = Inr (report_models report)"
proof -
  show "mode_arg = Some ''simultaneous'' \<Longrightarrow>
      report_models report =
        run_simultaneous_inference self infer clk (prepare_sensor_data sensor_data)"
    using assms diagnose_simultaneous [of self infer clk sensor_data] by auto
  show seq: "mode_arg \<noteq> Some ''simultaneous'' \<Longrightarrow>
      sequential_loop self infer (prepare_sensor_data sensor_data) = Inr (report_models report)"
  proof -
    assume ns: "mode_arg \<noteq> Some ''simultaneous''"
    show ?thesis
    proof (cases "sequential_loop self infer (prepare_sensor_data sensor_data)")
      case (Inl e)
      from diagnose_sequential_raises [OF ns Inl, of clk] assms show ?thesis by simp
    next
      case (Inr results)
      from diagnose_sequential [OF ns Inr, of clk] assms Inr show ?thesis by auto
    qed
  qed
  have "\<exists>results final mode. aggregate_diagnoses results = Inr final \<and>
      report = \<lparr>report_models = results, report_final = final, report_mode = mode\<rparr>"
  proof (cases "mode_arg = Some ''simultaneous''")
    case True
    with assms diagnose_simultaneous [of self infer clk sensor_data] show ?thesis by auto
  next
    case False
    from diagnose_sequential [OF False seq [OF False], of clk] assms show ?thesis by auto
  qed
  then obtain results final mode where agg: "aggregate_diagnoses results = Inr final"
    and r: "report = \<lparr>report_models = results, report_final = final, report_mode = mode\<rparr>"
    by auto
  from agg show "aggregate_diagnoses (report_models report) = Inr (report_final report)"
    unfolding r by simp
qed

lemma diagnose_default_mode:
  "diagnose self infer clk sensor_data None =
     diagnose self infer clk sensor_data (Some ''sequential'')"
  by (simp add: diagnose_def)

text \<open>The entry of one model, by what the backend returns for it.\<close>

lemma sequential_result_not_loaded:
  "\<not> is_loaded self m \<Longrightarrow>
     sequential_result self infer input_data m = Inr (Failure ''Model not loaded'')"
  by (simp add: sequential_result_def)

lemma sequential_result_failed:
  "is_loaded self m \<Longrightarrow> run_inference self infer m input_data = None \<Longrightarrow>
     sequential_result self infer input_data m = Inr (Failure ''Inference failed'')"
  by (simp add: sequential_result_def)

lemma sequential_result_empty:
  "is_loaded self m \<Longrightarrow> run_inference self infer m input_data = Some (Scalars []) \<Longrightarrow>
     sequential_result self infer input_data m =
       Inr (Success False 0 (interpret_diagnosis m 0) None None)"
  by (simp add: sequential_result_def)

lemma sequential_result_unreadable:
  "is_loaded self m \<Longrightarrow> run_inference self infer m input_data = Some (Unreadable msg) \<Longrightarrow>
     sequential_result self infer input_data m = Inl (TypeError msg)"
  by (simp add: sequential_result_def)

lemma sequential_result_returns:
  assumes "is_loaded self m \<Longrightarrow>
     \<forall>msg. run_inference self infer m input_data \<noteq> Some (Unreadable msg)"
  shows "\<exists>r. sequential_result self infer input_data m = Inr r"
proof (cases "is_loaded self m")
  case False
  then show ?thesis by (simp add: sequential_result_def)
next
  case True
  show ?thesis
  proof (cases "run_inference self infer m input_data")
    case None
    with True show ?thesis by (simp add: sequential_result_def)
  next
    case (Some row)
    with True assms show ?thesis
      by (cases row) (simp_all add: sequential_result_def)
  qed
qed

lemma run_model_not_loaded:
  "\<not> is_loaded self m \<Longrightarrow>
     run_model self infer clk input_data m = Inr (Failure ''Model not loaded'')"
  by (simp add: run_model_def)

lemma run_model_failed:
  "is_loaded self m \<Longrightarrow> run_inference self infer m input_data = None \<Longrightarrow>
     run_model self infer clk input_data m = Inr (Failure ''Inference failed'')"
  by (simp add: run_model_def)

lemma run_model_empty:
  "is_loaded self m \<Longrightarrow> run_inference self infer m input_data = Some (Scalars []) \<Longrightarrow>
     run_model self infer clk input_data m =
       Inr (Success False 0 (interpret_diagnosis m 0) (Some (inference_time clk m)) None)"
  by (simp add: run_model_def)

lemma run_model_unreadable:
  "is_loaded self m \<Longrightarrow> run_inference self infer m input_data = Some (Unreadable msg) \<Longrightarrow>
     run_model self infer clk input_data m = Inl (TypeError msg)"
  by (simp add: run_model_def)

lemma run_model_returns:
  assumes "is_loaded self m \<Longrightarrow>
     \<forall>msg. run_inference self infer m input_data \<noteq> Some (Unreadable msg)"
  shows "\<exists>r. run_model self infer clk input_data m = Inr r"
proof (cases "is_loaded self m")
  case False
  then show ?thesis by (simp add: run_model_def)
next
  case True
  show ?thesis
  proof (cases "run_inference self infer m input_data")
    case None
    with True show ?thesis by (simp add: run_model_def)
  next
    case (Some row)
    with True assms show ?thesis
      by (cases row) (simp_all add: run_model_def)
  qed
qed

lemma keyed_confidence_bearing:
  "m \<in> set (confidence_bearing (map (\<lambda>m. (m, f m)) ms)) \<longleftrightarrow>
     m \<in> set ms \<and> has_confidence (f m)"
  by (induction ms) (auto simp: confidence_bearing_def)

lemma confidence_bearing_iff:
  "m \<in> set (confidence_bearing results) \<longleftrightarrow> (\<exists>r. (m, r) \<in> set results \<and> has_confidence r)"
  by (induction results) (auto simp: confidence_bearing_def)

lemma valid_results_confidence_bearing:
  "valid_results results = map snd (filter (\<lambda>x. has_confidence (snd x)) results)"
  by (induction results) (simp_all add: valid_results_def)

lemma valid_results_all_failed:
  "valid_results (map (\<lambda>m. (m, Failure e)) ms) = []"
  by (induction ms) (simp_all add: valid_results_def)

text \<open>
  When no row is unreadable, the report is complete: exactly one entry for each key of
  \<open>MODEL_PATHS\<close>, in both modes and for every order of the threads.
\<close>

lemma diagnose_complete_readable:
  assumes readable: "\<And>m. is_loaded self m \<Longrightarrow>
     \<forall>msg. run_inference self infer m (prepare_sensor_data sensor_data) \<noteq> Some (Unreadable msg)"
  shows "\<exists>report. diagnose self infer clk sensor_data mode_arg = Inr report \<and>
           distinct (map fst (report_models report)) \<and>
           set (map fst (report_models report)) = set MODEL_KEYS \<and>
           length (report_models report) = 8"
proof (cases "mode_arg = Some ''simultaneous''")
  case True
  let ?input = "prepare_sensor_data sensor_data"
  let ?results = "run_simultaneous_inference self infer clk ?input"
  have "\<not> isl (run_model self infer clk ?input m)" for m
    using run_model_returns [of self m infer ?input clk, OF readable] by auto
  then have keys: "map fst ?results = completion_order clk"
    by (simp add: run_simultaneous_inference_keys)
  from diagnose_simultaneous [of self infer clk sensor_data] obtain final where
    rep: "diagnose self infer clk sensor_data (Some ''simultaneous'') =
       Inr \<lparr>report_models = ?results, report_final = final, report_mode = ''simultaneous''\<rparr>"
    by auto
  have len: "length ?results = 8"
    using arg_cong [OF keys, of length] by (simp add: completion_order_length)
  have dist: "distinct (map fst ?results)"
    unfolding keys by (rule completion_order_distinct)
  have dom: "set (map fst ?results) = set MODEL_KEYS"
    unfolding keys by (rule completion_order_set)
  from rep len dist dom True show ?thesis by simp
next
  case False
  let ?input = "prepare_sensor_data sensor_data"
  have "\<forall>m\<in>set MODEL_KEYS. \<exists>r. sequential_result self infer ?input m = Inr r"
    using sequential_result_returns [of self _ infer ?input, OF readable] by auto
  from sequential_loop_returns [OF this] obtain results where
    loop: "sequential_loop self infer ?input = Inr results" by auto
  note keys = sequential_loop_keys [OF loop]
  from diagnose_sequential [OF False loop, of clk] obtain final where
    rep: "diagnose self infer clk sensor_data mode_arg =
       Inr \<lparr>report_models = results, report_final = final,
            report_mode = (case mode_arg of None \<Rightarrow> ''sequential'' | Some m \<Rightarrow> m)\<rparr>"
    by auto
  have len: "length results = 8"
    using arg_cong [OF keys, of length] by (simp add: length_MODEL_KEYS)
  have dist: "distinct (map fst results)"
    unfolding keys by (rule distinct_MODEL_KEYS)
  have dom: "set (map fst results) = set MODEL_KEYS"
    unfolding keys by (rule refl)
  from rep len dist dom show ?thesis by simp
qed

text \<open>\<open>initialize\<close>: when it returns false, and when it leaves no model loaded.\<close>

lemma load_models_flag:
  "fst (load_models hw self entries) \<longleftrightarrow>
     (\<forall>entry\<in>set entries. \<forall>e. load_hef hw (snd entry) \<noteq> Path_exception e)"
proof (induction entries arbitrary: self)
  case Nil
  show ?case by simp
next
  case (Cons entry entries)
  show ?case
    by (cases "load_hef hw (snd entry)") (simp_all add: Cons.IH)
qed

lemma initialize_flag:
  "fst (initialize hw self) \<longleftrightarrow>
     vdevice_ok hw \<and>
     (\<forall>entry\<in>set MODEL_PATHS. \<forall>e. load_hef hw (snd entry) \<noteq> Path_exception e)"
  by (simp add: initialize_def load_models_flag)

lemma load_model_not_loaded:
  assumes "\<forall>sz. load_hef hw (snd entry) \<noteq> Loaded sz" and "\<not> is_loaded self m"
  shows "\<not> is_loaded (load_model hw self entry) m"
  using assms
  by (cases entry; cases "load_hef hw (snd entry)")
     (simp_all add: load_model_def is_loaded_def)

lemma load_models_not_loaded:
  assumes "\<forall>p sz. load_hef hw p \<noteq> Loaded sz"
  shows "\<not> is_loaded self m \<Longrightarrow> \<not> is_loaded (snd (load_models hw self entries)) m"
proof (induction entries arbitrary: self)
  case Nil
  then show ?case by simp
next
  case (Cons entry entries)
  from assms have "\<forall>sz. load_hef hw (snd entry) \<noteq> Loaded sz" by simp
  from load_model_not_loaded [OF this Cons.prems]
  have "\<not> is_loaded (load_model hw self entry) m" .
  from Cons.IH [OF this] Cons.prems show ?case
    by (cases "load_hef hw (snd entry)") simp_all
qed

lemma initialize_none_loaded:
  assumes "\<forall>p sz. load_hef hw p \<noteq> Loaded sz"
  shows "\<not> is_loaded (snd (initialize hw init_diagnostics)) m"
proof (cases "vdevice_ok hw")
  case True
  have "\<not> is_loaded (init_diagnostics\<lparr>target := Some ()\<rparr>) m"
    by (simp add: is_loaded_def init_diagnostics_def)
  from load_models_not_loaded [OF assms this] True show ?thesis
    by (simp add: initialize_def)
next
  case False
  then show ?thesis by (simp add: initialize_def is_loaded_def init_diagnostics_def)
qed

text \<open>The \<open>diagnose\<close> command of \<open>main\<close>, by the flag that \<open>initialize\<close> returns.\<close>

lemma main_diagnose_initialized:
  assumes "3 \<le> length argv" and "argv ! 1 = ''diagnose''"
    and "json_loads (argv ! 2) = Some sensor_data"
    and "fst (initialize hw init_diagnostics)"
  shows "main argv json_loads hw infer clk =
    (case diagnose (snd (initialize hw init_diagnostics)) infer clk sensor_data
            (Some (if length argv > 3 then argv ! 3 else ''simultaneous'')) of
       Inr result \<Rightarrow> (Json_report result, 0)
     | Inl e \<Rightarrow> (Json_error (py_str e), 0))"
  using assms
  by (cases "initialize hw init_diagnostics") (simp add: main_def Let_def)

lemma main_diagnose_not_initialized:
  assumes "3 \<le> length argv" and "argv ! 1 = ''diagnose''"
    and "json_loads (argv ! 2) = Some sensor_data"
    and "\<not> fst (initialize hw init_diagnostics)"
  shows "main argv json_loads hw infer clk =
    (Json_error ''Failed to initialize Hailo device'', 0)"
  using assms
  by (cases "initialize hw init_diagnostics") (simp add: main_def Let_def)

lemma diagnose_none_loaded:
  assumes none: "\<And>m. \<not> is_loaded self m"
  shows "\<exists>keys. set keys = set MODEL_KEYS \<and>
     diagnose self infer clk sensor_data (Some mode) =
       Inr \<lparr>report_models = map (\<lambda>m. (m, Failure ''Model not loaded'')) keys,
            report_final =
              \<lparr>final_diagnosis = ''Unable to complete diagnosis'', consensus = 0\<rparr>,
            report_mode = mode\<rparr>"
proof (cases "mode = ''simultaneous''")
  case True
  have R: "run_simultaneous_inference self infer clk (prepare_sensor_data sensor_data) =
      map (\<lambda>m. (m, Failure ''Model not loaded'')) (completion_order clk)"
    by (simp add: run_simultaneous_inference_eq run_model_not_loaded [OF none])
  have "diagnose self infer clk sensor_data (Some mode) =
       Inr \<lparr>report_models = map (\<lambda>m. (m, Failure ''Model not loaded'')) (completion_order clk),
            report_final =
              \<lparr>final_diagnosis = ''Unable to complete diagnosis'', consensus = 0\<rparr>,
            report_mode = mode\<rparr>"
    using True by (simp add: diagnose_def R aggregate_no_valid valid_results_all_failed)
  with completion_order_set [of clk] show ?thesis by auto
next
  case False
  have "\<forall>m\<in>set MODEL_KEYS. \<exists>r.
      sequential_result self infer (prepare_sensor_data sensor_data) m = Inr r"
    by (simp add: sequential_result_not_loaded [OF none])
  from sequential_loop_returns [OF this]
  have R: "sequential_loop self infer (prepare_sensor_data sensor_data) =
      Inr (map (\<lambda>m. (m, Failure ''Model not loaded'')) MODEL_KEYS)"
    by (simp add: sequential_result_not_loaded [OF none])
  have "diagnose self infer clk sensor_data (Some mode) =
       Inr \<lparr>report_models = map (\<lambda>m. (m, Failure ''Model not loaded'')) MODEL_KEYS,
            report_final =
              \<lparr>final_diagnosis = ''Unable to complete diagnosis'', consensus = 0\<rparr>,
            report_mode = mode\<rparr>"
    using False by (simp add: diagnose_def R aggregate_no_valid valid_results_all_failed)
  then show ?thesis by auto
qed

subsection \<open>Diagnosis interpreter: lemmas\<close>

lemma interpret_diagnosis_unknown:
  "m \<notin> set MODEL_KEYS \<Longrightarrow> interpret_diagnosis m p = ''Unknown''"
  by (simp add: interpret_diagnosis_def diagnoses_def MODEL_KEYS_eq)

lemma interpret_diagnosis_normal:
  "p < 0.5 \<Longrightarrow>
     map (\<lambda>m. interpret_diagnosis m p) MODEL_KEYS =
       [''System coordination normal'', ''Electrical systems normal'', ''Refrigeration normal'',
        ''Flow systems normal'', ''Mechanical systems normal'', ''Airflow normal'',
        ''No pattern anomalies'', ''Safety parameters normal'']"
  by (simp add: interpret_diagnosis_def diagnoses_def MODEL_KEYS_eq)

lemma interpret_diagnosis_fault:
  "\<not> p < 0.5 \<Longrightarrow>
     map (\<lambda>m. interpret_diagnosis m p) MODEL_KEYS =
       [''System coordination issue detected'', ''Electrical fault detected'',
        ''Refrigeration issue detected'', ''Flow restriction detected'',
        ''Mechanical fault detected'', ''Airflow issue detected'', ''Pattern anomaly detected'',
        ''Safety concern detected'']"
  by (simp add: interpret_diagnosis_def diagnoses_def MODEL_KEYS_eq)

subsection \<open>Sample runs\<close>

lemma sample_is_loaded:
  "is_loaded sample_diagnostics m = (m = ''apollo'' \<or> m = ''aquilo'')"
  by (simp add: is_loaded_def sample_diagnostics_def)

lemma sample_network_groups:
  "network_groups sample_diagnostics = {''aquilo'', ''apollo''}"
  by (simp add: sample_diagnostics_def)

lemma sample_initialize:
  "initialize sample_hardware init_diagnostics = (True, sample_diagnostics)"
  by (simp add: initialize_def sample_hardware_def init_diagnostics_def MODEL_PATHS_def
      load_model_def sample_load_hef_def sample_diagnostics_def)

lemma unsearchable_initialize:
  "initialize unsearchable_hardware init_diagnostics = (False, unsearchable_diagnostics)"
  by (simp add: initialize_def unsearchable_hardware_def init_diagnostics_def MODEL_PATHS_def
      load_model_def unsearchable_load_hef_def unsearchable_diagnostics_def)

lemma sample_completion_order:
  "completion_order sample_clock =
     [''gaia'', ''colossus'', ''zephyrus'', ''vulcan'', ''naiad'', ''boreas'', ''aquilo'',
      ''apollo'']"
  by (simp add: completion_order_def sample_clock_def sample_lock_order_def MODEL_KEYS_eq)

lemma sample_times:
  "inference_time sample_clock m = 12.5" "total_time sample_clock = 14.25"
  by (simp_all add: sample_clock_def sample_inference_time_def)

lemma sample_sequential_loop:
  "sequential_loop sample_diagnostics sample_backend input_data = Inr sample_sequential_models"
  by (simp add: sequential_loop_def MODEL_KEYS_eq sequential_result_def sample_is_loaded
      run_inference_def sample_network_groups sample_backend_def
      interpret_diagnosis_def diagnoses_def sample_sequential_models_def)

lemma sample_aggregate_sequential:
  "aggregate_diagnoses sample_sequential_models = Inr sample_final"
  by (simp add: aggregate_diagnoses_def sample_sequential_models_def sample_final_def Let_def)

lemma sample_simultaneous_inference:
  "run_simultaneous_inference sample_diagnostics sample_backend sample_clock input_data =
     sample_simultaneous_models"
  by (simp add: run_simultaneous_inference_def sample_completion_order thread_write_def
      run_model_def sample_is_loaded run_inference_def sample_network_groups sample_backend_def
      interpret_diagnosis_def diagnoses_def sample_simultaneous_models_def sample_times)

lemma sample_aggregate_simultaneous:
  "aggregate_diagnoses sample_simultaneous_models = Inr sample_final"
  by (simp add: aggregate_diagnoses_def sample_simultaneous_models_def sample_final_def Let_def)

lemma sample_sequential_report:
  "mode \<noteq> ''simultaneous'' \<Longrightarrow>
   diagnose sample_diagnostics sample_backend sample_clock sensor_data (Some mode) =
    Inr \<lparr>report_models = sample_sequential_models, report_final = sample_final,
         report_mode = mode\<rparr>"
  by (simp add: diagnose_def sample_sequential_loop sample_aggregate_sequential Let_def)

lemma sample_simultaneous_report:
  "diagnose sample_diagnostics sample_backend sample_clock sensor_data (Some ''simultaneous'') =
    Inr \<lparr>report_models = sample_simultaneous_models, report_final = sample_final,
         report_mode = ''simultaneous''\<rparr>"
  by (simp add: diagnose_def sample_simultaneous_inference sample_aggregate_simultaneous Let_def)

lemma failing_sequential_loop:
  "sequential_loop sample_diagnostics failing_backend input_data =
     Inr failing_sequential_models"
  by (simp add: sequential_loop_def MODEL_KEYS_eq sequential_result_def sample_is_loaded
      run_inference_def sample_network_groups sample_backend_def failing_backend_def
      interpret_diagnosis_def diagnoses_def failing_sequential_models_def)

lemma failing_aggregate:
  "aggregate_diagnoses failing_sequential_models = Inr failing_final"
  by (simp add: aggregate_diagnoses_def failing_sequential_models_def failing_final_def Let_def)

lemma failing_sequential_report:
  "mode \<noteq> ''simultaneous'' \<Longrightarrow>
   diagnose sample_diagnostics failing_backend sample_clock sensor_data (Some mode) =
    Inr \<lparr>report_models = failing_sequential_models, report_final = failing_final,
         report_mode = mode\<rparr>"
  by (simp add: diagnose_def failing_sequential_loop failing_aggregate Let_def)

lemma raising_sequential_loop:
  "sequential_loop sample_diagnostics raising_backend input_data =
     Inr raising_sequential_models"
  by (simp add: sequential_loop_def MODEL_KEYS_eq sequential_result_def sample_is_loaded
      run_inference_def sample_network_groups raising_backend_def
      interpret_diagnosis_def diagnoses_def raising_sequential_models_def)

lemma raising_aggregate:
  "aggregate_diagnoses raising_sequential_models = Inr raising_final"
  by (simp add: aggregate_diagnoses_def raising_sequential_models_def raising_final_def Let_def)

lemma raising_sequential_report:
  "mode \<noteq> ''simultaneous'' \<Longrightarrow>
   diagnose sample_diagnostics raising_backend sample_clock sensor_data (Some mode) =
    Inr \<lparr>report_models = raising_sequential_models, report_final = raising_final,
         report_mode = mode\<rparr>"
  by (simp add: diagnose_def raising_sequential_loop raising_aggregate Let_def)

lemma unreadable_simultaneous_inference:
  "run_simultaneous_inference sample_diagnostics unreadable_backend sample_clock input_data =
     unreadable_simultaneous_models"
  by (simp add: run_simultaneous_inference_def sample_completion_order thread_write_def
      run_model_def sample_is_loaded run_inference_def sample_network_groups
      unreadable_backend_def interpret_diagnosis_def diagnoses_def
      unreadable_simultaneous_models_def sample_times)

lemma unreadable_aggregate:
  "aggregate_diagnoses unreadable_simultaneous_models = Inr unreadable_final"
  by (simp add: aggregate_diagnoses_def unreadable_simultaneous_models_def unreadable_final_def
      Let_def)

lemma unreadable_simultaneous_report:
  "diagnose sample_diagnostics unreadable_backend sample_clock sensor_data
     (Some ''simultaneous'') =
    Inr \<lparr>report_models = unreadable_simultaneous_models, report_final = unreadable_final,
         report_mode = ''simultaneous''\<rparr>"
  by (simp add: diagnose_def unreadable_simultaneous_inference unreadable_aggregate Let_def)

lemma unreadable_sequential_loop:
  "sequential_loop sample_diagnostics unreadable_backend input_data =
     Inl (TypeError ''only length-1 arrays can be converted to Python scalars'')"
  by (simp add: sequential_loop_def MODEL_KEYS_eq sequential_result_def sample_is_loaded
      run_inference_def sample_network_groups unreadable_backend_def)

lemma unreadable_sequential_raises:
  "diagnose sample_diagnostics unreadable_backend sample_clock sensor_data
     (Some ''sequential'') =
     Inl (TypeError ''only length-1 arrays can be converted to Python scalars'')"
  by (simp add: diagnose_def unreadable_sequential_loop Let_def)

lemma no_files_initialize:
  "fst (initialize no_files_hardware init_diagnostics)"
  "\<not> is_loaded (snd (initialize no_files_hardware init_diagnostics)) m"
  by (simp_all add: initialize_flag initialize_none_loaded no_files_hardware_def
      no_files_load_hef_def)

lemma sample_argv:
  "3 \<le> length [''hailo_inference.py'', ''diagnose'', ''{}'']"
  "length [''hailo_inference.py'', ''diagnose'', ''{}''] = 3"
  "[''hailo_inference.py'', ''diagnose'', ''{}''] ! 1 = ''diagnose''"
  "sample_json_loads ([''hailo_inference.py'', ''diagnose'', ''{}''] ! 2) = Some Map.empty"
  by (simp_all add: sample_json_loads_def)

lemma no_files_main:
  "main [''hailo_inference.py'', ''diagnose'', ''{}''] sample_json_loads no_files_hardware
     sample_backend sample_clock =
     (Json_report
        \<lparr>report_models = not_loaded_models,
         report_final =
           \<lparr>final_diagnosis = ''Unable to complete diagnosis'', consensus = 0\<rparr>,
         report_mode = ''simultaneous''\<rparr>, 0)"
proof -
  note nl = no_files_initialize(2)
  have R: "run_simultaneous_inference (snd (initialize no_files_hardware init_diagnostics))
      sample_backend sample_clock input_data = not_loaded_models" for input_data
    by (simp add: run_simultaneous_inference_eq run_model_not_loaded [OF nl]
        sample_completion_order not_loaded_models_def)
  have A: "aggregate_diagnoses not_loaded_models =
      Inr \<lparr>final_diagnosis = ''Unable to complete diagnosis'', consensus = 0\<rparr>"
    by (simp add: aggregate_diagnoses_def not_loaded_models_def)
  show ?thesis
    by (simp add: main_diagnose_initialized
        [where argv = "[''hailo_inference.py'', ''diagnose'', ''{}'']"
          and json_loads = sample_json_loads,
          OF sample_argv(1) sample_argv(3) sample_argv(4) no_files_initialize(1)]
        diagnose_def R A)
qed

section \<open>Properties\<close>

subsection \<open>Consensus aggregator\<close>

text \<open>
  C1. For every result mapping, \<open>aggregate_diagnoses\<close> returns
  \<open>{diagnosis: "Unable to complete diagnosis", consensus: 0}\<close> when no result carries a
  confidence; otherwise the consensus is the number of confidence-bearing results flagged as
  faults divided by the number of confidence-bearing results, a value in \<open>[0, 1]\<close>, and
  the diagnosis follows the three tiers: above \<open>0.7\<close> it is \<open>"FAULT DETECTED: "\<close>
  followed by the diagnosis of the first flagged result of maximum confidence (every flagged
  result before it has a strictly smaller confidence, none after it has a greater one), or
  \<open>"Multiple system issues detected"\<close> when nothing is flagged; above \<open>0.3\<close> and up
  to \<open>0.7\<close> it is the monitoring recommendation; up to \<open>0.3\<close> it is
  \<open>"System operating normally"\<close>.
\<close>

theorem aggregate_diagnoses_policy:
  "(valid_results results = [] \<longrightarrow>
      aggregate_diagnoses results =
        Inr \<lparr>final_diagnosis = ''Unable to complete diagnosis'', consensus = 0\<rparr>) \<and>
   (valid_results results \<noteq> [] \<longrightarrow>
      (\<exists>final. aggregate_diagnoses results = Inr final \<and>
         consensus final = vote_ratio results \<and>
         0 \<le> consensus final \<and> consensus final \<le> 1 \<and>
         (consensus final > 0.7 \<longrightarrow>
            (fault_flagged results = [] \<longrightarrow>
               final_diagnosis final = ''Multiple system issues detected'') \<and>
            (fault_flagged results \<noteq> [] \<longrightarrow>
               (\<exists>pre k c d t tt post.
                  fault_flagged results = pre @ (k, Success True c d t tt) # post \<and>
                  (\<forall>x\<in>set pre. get_confidence (snd x) < c) \<and>
                  (\<forall>x\<in>set post. get_confidence (snd x) \<le> c) \<and>
                  final_diagnosis final = ''FAULT DETECTED: '' @ d))) \<and>
         (0.3 < consensus final \<and> consensus final \<le> 0.7 \<longrightarrow>
            final_diagnosis final = ''Potential issue detected - monitoring recommended'') \<and>
         (consensus final \<le> 0.3 \<longrightarrow>
            final_diagnosis final = ''System operating normally'')))"
  (is "?empty \<and> (_ \<longrightarrow> ?tiers)")
proof (intro conjI impI)
  assume "valid_results results = []"
  then show "aggregate_diagnoses results =
        Inr \<lparr>final_diagnosis = ''Unable to complete diagnosis'', consensus = 0\<rparr>"
    by (rule aggregate_no_valid)
next
  assume ne: "valid_results results \<noteq> []"
  note b = vote_ratio_bounds [OF ne]
  consider (high) "vote_ratio results > 0.7"
    | (mid) "\<not> vote_ratio results > 0.7" "vote_ratio results > 0.3"
    | (low) "\<not> vote_ratio results > 0.7" "\<not> vote_ratio results > 0.3"
    by blast
  then show ?tiers
  proof cases
    case mid
    from aggregate_mid [OF ne mid] mid b show ?thesis by simp
  next
    case low
    from aggregate_low [OF ne low] low b show ?thesis by simp
  next
    case high
    then have "vote_ratio results > 0" by simp
    from high_vote_has_flagged [OF ne this] have fl: "fault_flagged results \<noteq> []" .
    from aggregate_high_some [OF ne high fl] obtain pre k c d t tt post where
      split: "fault_flagged results = pre @ (k, Success True c d t tt) # post"
        "\<forall>x\<in>set pre. get_confidence (snd x) < c"
        "\<forall>x\<in>set post. get_confidence (snd x) \<le> c" and
      agg: "aggregate_diagnoses results =
             Inr \<lparr>final_diagnosis = ''FAULT DETECTED: '' @ d, consensus = vote_ratio results\<rparr>"
      by blast
    from split have ex: "\<exists>pre k c d' t tt post.
                  fault_flagged results = pre @ (k, Success True c d' t tt) # post \<and>
                  (\<forall>x\<in>set pre. get_confidence (snd x) < c) \<and>
                  (\<forall>x\<in>set post. get_confidence (snd x) \<le> c) \<and>
                  ''FAULT DETECTED: '' @ d = ''FAULT DETECTED: '' @ d'" by blast
    show ?thesis using agg high b fl ex by simp
  qed
qed

theorem aggregate_diagnoses_policy_witness:
  "valid_results sample_results \<noteq> [] \<and> vote_ratio sample_results = 3 / 4 \<and>
   fault_flagged sample_results \<noteq> [] \<and>
   aggregate_diagnoses sample_results =
     Inr \<lparr>final_diagnosis = ''FAULT DETECTED: Electrical fault detected'', consensus = 3 / 4\<rparr>"
proof -
  have ne: "valid_results sample_results \<noteq> []"
    by (simp add: valid_results_def sample_results_def)
  have ratio: "vote_ratio sample_results = 3 / 4"
    by (simp add: vote_ratio_def valid_results_def sample_results_def)
  have fl: "fault_flagged sample_results =
     [(''apollo'', Success True 0.9 ''System coordination issue detected'' None None),
      (''aquilo'', Success True 0.95 ''Electrical fault detected'' None None),
      (''vulcan'', Success True 0.95 ''Mechanical fault detected'' None None)]"
    by (simp add: fault_flagged_def sample_results_def)
  from aggregate_diagnoses_policy [of sample_results] ne ratio
  obtain final where agg: "aggregate_diagnoses sample_results = Inr final"
    and c: "consensus final = 3 / 4"
    by auto
  have "aggregate_diagnoses sample_results =
     Inr \<lparr>final_diagnosis = ''FAULT DETECTED: Electrical fault detected'', consensus = 3 / 4\<rparr>"
    by (simp add: aggregate_diagnoses_def sample_results_def Let_def)
  with ne ratio fl agg c show ?thesis by simp
qed

subsection \<open>Completeness of the report\<close>

text \<open>
  C2. The report is meant to hold exactly one entry for each of the 8 keys of \<open>MODEL_PATHS\<close>,
  and it does whenever every row can be read (lemma \<open>diagnose_complete_readable\<close>). The reading
  of the row, \<open>float(output[0]) if len(output) > 0 else 0.0\<close>, is outside the \<open>try\<close> of
  \<open>run_inference\<close>: for a loaded model whose row cannot be read, the thread of simultaneous mode
  ends before it writes its entry, and the report has 7 entries; in sequential mode the
  exception leaves \<open>diagnose\<close>, and \<open>main\<close> prints an error object instead of a report.
\<close>

theorem report_incomplete_unreadable_row:
  "''apollo'' \<in> set MODEL_KEYS \<and> is_loaded sample_diagnostics ''apollo'' \<and>
   run_inference sample_diagnostics unreadable_backend ''apollo''
     (prepare_sensor_data Map.empty) =
     Some (Unreadable ''only length-1 arrays can be converted to Python scalars'') \<and>
   diagnose sample_diagnostics unreadable_backend sample_clock Map.empty
     (Some ''simultaneous'') =
     Inr \<lparr>report_models = unreadable_simultaneous_models, report_final = unreadable_final,
          report_mode = ''simultaneous''\<rparr> \<and>
   map fst unreadable_simultaneous_models =
     [''gaia'', ''colossus'', ''zephyrus'', ''vulcan'', ''naiad'', ''boreas'', ''aquilo''] \<and>
   length unreadable_simultaneous_models = 7 \<and>
   map_of unreadable_simultaneous_models ''apollo'' = None \<and>
   diagnose sample_diagnostics unreadable_backend sample_clock Map.empty
     (Some ''sequential'') =
     Inl (TypeError ''only length-1 arrays can be converted to Python scalars'') \<and>
   main [''hailo_inference.py'', ''diagnose'', ''{}'', ''sequential''] sample_json_loads
     sample_hardware unreadable_backend sample_clock =
     (Json_error ''only length-1 arrays can be converted to Python scalars'', 0)"
proof -
  have run: "run_inference sample_diagnostics unreadable_backend ''apollo''
     (prepare_sensor_data Map.empty) =
     Some (Unreadable ''only length-1 arrays can be converted to Python scalars'')"
    by (simp add: run_inference_def sample_network_groups unreadable_backend_def)
  have m: "main [''hailo_inference.py'', ''diagnose'', ''{}'', ''sequential''] sample_json_loads
     sample_hardware unreadable_backend sample_clock =
     (Json_error ''only length-1 arrays can be converted to Python scalars'', 0)"
    by (simp add: main_def Let_def sample_json_loads_def sample_initialize
        unreadable_sequential_raises)
  show ?thesis
    using run m
    by (simp add: MODEL_KEYS_eq sample_is_loaded unreadable_simultaneous_report
        unreadable_sequential_raises unreadable_simultaneous_models_def)
qed

subsection \<open>Threshold consistency\<close>

text \<open>
  C3 (amended). For every result with a confidence that \<open>diagnose\<close> produces, in either
  mode, \<open>fault_detected\<close> is true if and only if the confidence is strictly greater than
  \<open>0.5\<close>; the backend returned an output for that model, and the confidence is the first
  scalar of that output when the output is not empty, and \<open>0.0\<close> when it is empty.
\<close>

theorem threshold_consistency:
  assumes rep: "diagnose self infer clk sensor_data mode_arg = Inr report"
    and entry: "(m, Success fd c d t tt) \<in> set (report_models report)"
  shows "fd = (c > 0.5) \<and>
         (\<exists>xs. run_inference self infer m (prepare_sensor_data sensor_data) =
                 Some (Scalars xs) \<and>
            (case xs of [] \<Rightarrow> c = 0 | x # _ \<Rightarrow> c = x))"
proof -
  have "\<exists>xs. run_inference self infer m (prepare_sensor_data sensor_data) = Some (Scalars xs) \<and>
           c = (case xs of [] \<Rightarrow> 0 | x # _ \<Rightarrow> x) \<and> fd = (c > 0.5)"
  proof (cases "mode_arg = Some ''simultaneous''")
    case True
    with entry diagnose_models(2) [OF rep]
    have "(m, Success fd c d t tt) \<in>
      set (run_simultaneous_inference self infer clk (prepare_sensor_data sensor_data))" by simp
    then obtain r where
      "run_model self infer clk (prepare_sensor_data sensor_data) m = Inr r"
      "add_total_time (total_time clk) r = Success fd c d t tt"
      by (auto simp: run_simultaneous_inference_entry)
    from run_model_Success [OF this] show ?thesis by auto
  next
    case False
    from entry sequential_loop_entry [OF diagnose_models(3) [OF rep False]]
    have "sequential_result self infer (prepare_sensor_data sensor_data) m =
        Inr (Success fd c d t tt)"
      by simp
    from sequential_result_Success [OF this] show ?thesis by auto
  qed
  then obtain xs where
    run: "run_inference self infer m (prepare_sensor_data sensor_data) = Some (Scalars xs)" and
    c: "c = (case xs of [] \<Rightarrow> 0 | x # _ \<Rightarrow> x)" and fd: "fd = (c > 0.5)" by auto
  from c have "case xs of [] \<Rightarrow> c = 0 | x # _ \<Rightarrow> c = x"
    by (cases xs) simp_all
  with run fd show ?thesis by simp
qed

theorem threshold_consistency_witness:
  "diagnose sample_diagnostics sample_backend sample_clock Map.empty (Some ''sequential'') =
     Inr \<lparr>report_models = sample_sequential_models, report_final = sample_final,
          report_mode = ''sequential''\<rparr> \<and>
   (''aquilo'', Success True 0.9 ''Electrical fault detected'' None None)
     \<in> set sample_sequential_models \<and>
   (0.5 :: real) < 0.9 \<and>
   run_inference sample_diagnostics sample_backend ''aquilo'' (prepare_sensor_data Map.empty) =
     Some (Scalars [0.9, 0.2])"
proof -
  have rep: "diagnose sample_diagnostics sample_backend sample_clock Map.empty
      (Some ''sequential'') =
     Inr \<lparr>report_models = sample_sequential_models, report_final = sample_final,
          report_mode = ''sequential''\<rparr>"
    by (rule sample_sequential_report) simp
  have entry: "(''aquilo'', Success True 0.9 ''Electrical fault detected'' None None)
     \<in> set (report_models \<lparr>report_models = sample_sequential_models,
          report_final = sample_final, report_mode = ''sequential''\<rparr>)"
    by (simp add: sample_sequential_models_def)
  have run: "run_inference sample_diagnostics sample_backend ''aquilo''
      (prepare_sensor_data Map.empty) = Some (Scalars [0.9, 0.2])"
    by (simp add: run_inference_def sample_network_groups sample_backend_def)
  from threshold_consistency [OF rep entry] rep entry run
  show ?thesis by simp
qed

text \<open>
  The claim as stated fails where the backend returns an empty output: the entry carries the
  confidence \<open>0.0\<close>, and the output has no first scalar.
\<close>

theorem confidence_empty_output_counterexample:
  "diagnose sample_diagnostics sample_backend sample_clock Map.empty (Some ''sequential'') =
     Inr \<lparr>report_models = sample_sequential_models, report_final = sample_final,
          report_mode = ''sequential''\<rparr> \<and>
   map_of sample_sequential_models ''apollo'' =
     Some (Success False 0 ''System coordination normal'' None None) \<and>
   run_inference sample_diagnostics sample_backend ''apollo'' (prepare_sensor_data Map.empty) =
     Some (Scalars [])"
  by (simp add: sample_sequential_report sample_sequential_models_def run_inference_def
      sample_network_groups sample_backend_def)

subsection \<open>Default execution mode\<close>

text \<open>
  C4 (amended). When the \<open>diagnose\<close> command of \<open>main\<close> is given no mode argument and the
  device initialises, the mode is \<open>simultaneous\<close>: the report printed has the mode field
  \<open>simultaneous\<close> and the model mapping that \<open>run_simultaneous_inference\<close> builds. The method
  \<open>diagnose\<close> itself, called without a mode, behaves as with the mode \<open>sequential\<close>.
\<close>

theorem main_default_mode:
  assumes len: "length argv = 3" and cmd: "argv ! 1 = ''diagnose''"
    and json: "json_loads (argv ! 2) = Some sensor_data"
    and dev: "fst (initialize hw init_diagnostics)"
  shows "(\<exists>final. main argv json_loads hw infer clk =
            (Json_report
               \<lparr>report_models =
                  run_simultaneous_inference (snd (initialize hw init_diagnostics)) infer clk
                    (prepare_sensor_data sensor_data),
                report_final = final, report_mode = ''simultaneous''\<rparr>, 0)) \<and>
         diagnose self infer clk sensor_data None =
           diagnose self infer clk sensor_data (Some ''sequential'')"
proof -
  from len have len': "3 \<le> length argv" by simp
  from diagnose_simultaneous [of "snd (initialize hw init_diagnostics)" infer clk sensor_data]
  obtain final where
    "diagnose (snd (initialize hw init_diagnostics)) infer clk sensor_data
       (Some ''simultaneous'') =
     Inr \<lparr>report_models =
            run_simultaneous_inference (snd (initialize hw init_diagnostics)) infer clk
              (prepare_sensor_data sensor_data),
          report_final = final, report_mode = ''simultaneous''\<rparr>"
    by auto
  with len show ?thesis
    by (simp add: main_diagnose_initialized
        [where argv = argv and json_loads = json_loads, OF len' cmd json dev]
        diagnose_default_mode)
qed

theorem main_default_mode_witness:
  "length [''hailo_inference.py'', ''diagnose'', ''{}''] = 3 \<and>
   [''hailo_inference.py'', ''diagnose'', ''{}''] ! 1 = ''diagnose'' \<and>
   sample_json_loads ([''hailo_inference.py'', ''diagnose'', ''{}''] ! 2) = Some Map.empty \<and>
   fst (initialize sample_hardware init_diagnostics) \<and>
   main [''hailo_inference.py'', ''diagnose'', ''{}''] sample_json_loads sample_hardware
     sample_backend sample_clock =
     (Json_report \<lparr>report_models = sample_simultaneous_models, report_final = sample_final,
                   report_mode = ''simultaneous''\<rparr>, 0)"
proof -
  have dev: "fst (initialize sample_hardware init_diagnostics)"
    by (simp add: sample_initialize)
  from main_default_mode [where argv = "[''hailo_inference.py'', ''diagnose'', ''{}'']"
      and json_loads = sample_json_loads and infer = sample_backend and clk = sample_clock,
      OF sample_argv(2) sample_argv(3) sample_argv(4) dev]
  obtain final where "main [''hailo_inference.py'', ''diagnose'', ''{}''] sample_json_loads
      sample_hardware sample_backend sample_clock =
    (Json_report
       \<lparr>report_models =
          run_simultaneous_inference (snd (initialize sample_hardware init_diagnostics))
            sample_backend sample_clock (prepare_sensor_data Map.empty),
        report_final = final, report_mode = ''simultaneous''\<rparr>, 0)"
    by auto
  moreover have "main [''hailo_inference.py'', ''diagnose'', ''{}''] sample_json_loads
      sample_hardware sample_backend sample_clock =
     (Json_report \<lparr>report_models = sample_simultaneous_models, report_final = sample_final,
                   report_mode = ''simultaneous''\<rparr>, 0)"
    by (simp add: main_def Let_def sample_json_loads_def sample_initialize
        sample_simultaneous_report)
  ultimately show ?thesis using sample_argv dev by simp
qed

text \<open>
  The claim as stated fails for the method: called without a mode, \<open>diagnose\<close> takes the
  sequential path and reports the mode \<open>sequential\<close>.
\<close>

theorem diagnose_default_sequential_counterexample:
  "diagnose sample_diagnostics sample_backend sample_clock Map.empty None =
     Inr \<lparr>report_models = sample_sequential_models, report_final = sample_final,
          report_mode = ''sequential''\<rparr> \<and>
   sample_sequential_models \<noteq> sample_simultaneous_models"
  by (simp add: diagnose_default_mode sample_sequential_report sample_sequential_models_def
      sample_simultaneous_models_def)

subsection \<open>Failed and empty backend outputs\<close>

lemma confidence_bearing_valid_results:
  "confidence_bearing results \<noteq> [] \<longleftrightarrow> valid_results results \<noteq> []"
  by (simp add: confidence_bearing_def valid_results_confidence_bearing)

lemma keyed_failure_entry:
  assumes m: "m \<in> set ks" and g: "g m = Failure e"
    and agg: "aggregate_diagnoses (map (\<lambda>m. (m, g m)) ks) = Inr final"
  shows "map_of (map (\<lambda>m. (m, g m)) ks) m = Some (Failure e) \<and>
         m \<notin> set (confidence_bearing (map (\<lambda>m. (m, g m)) ks)) \<and>
         aggregate_diagnoses (filter (\<lambda>x. fst x \<noteq> m) (map (\<lambda>m. (m, g m)) ks)) = Inr final"
proof -
  have "\<forall>x\<in>set (map (\<lambda>m. (m, g m)) ks). \<not> fst x \<noteq> m \<longrightarrow> \<not> has_confidence (snd x)"
    using g by auto
  from aggregate_ignores_failures [OF this] agg m g show ?thesis
    by (simp add: map_of_keyed keyed_confidence_bearing)
qed

lemma keyed_success_entry:
  assumes m: "m \<in> set ks" and g: "g m = Success fd c d t tt"
    and agg: "aggregate_diagnoses (map (\<lambda>m. (m, g m)) ks) = Inr final"
  shows "map_of (map (\<lambda>m. (m, g m)) ks) m = Some (Success fd c d t tt) \<and>
         m \<in> set (confidence_bearing (map (\<lambda>m. (m, g m)) ks)) \<and>
         consensus final = vote_ratio (map (\<lambda>m. (m, g m)) ks)"
proof -
  have mem: "m \<in> set (confidence_bearing (map (\<lambda>m. (m, g m)) ks))"
    using m g by (simp add: keyed_confidence_bearing)
  then have "confidence_bearing (map (\<lambda>m. (m, g m)) ks) \<noteq> []" by auto
  then have "valid_results (map (\<lambda>m. (m, g m)) ks) \<noteq> []"
    by (simp add: confidence_bearing_valid_results)
  from aggregate_consensus [OF this agg] mem m g show ?thesis
    by (simp add: map_of_keyed)
qed

text \<open>
  C5 (amended). For every loaded model whose backend call returns no output at all
  (\<open>run_inference\<close> returns \<open>None\<close>: the model has no network group, or the pipeline raised), the
  entry of that model is the error record \<open>Inference failed\<close>, the model is not among the
  confidence-bearing results, and the final result is the one the aggregation gives without
  that entry. An empty output (zero scalars) yields instead a result with confidence \<open>0.0\<close>
  and \<open>fault_detected\<close> false, which is among the confidence-bearing results; the consensus of
  the final result is the ratio over all confidence-bearing results, that one included. In both
  cases the final result of the report is the aggregation of its model mapping.
\<close>

theorem inference_failure_result:
  assumes key: "m \<in> set MODEL_KEYS"
    and ld: "is_loaded self m"
    and rep: "diagnose self infer clk sensor_data mode_arg = Inr report"
  shows "aggregate_diagnoses (report_models report) = Inr (report_final report) \<and>
         (run_inference self infer m (prepare_sensor_data sensor_data) = None \<longrightarrow>
           map_of (report_models report) m = Some (Failure ''Inference failed'') \<and>
           m \<notin> set (confidence_bearing (report_models report)) \<and>
           aggregate_diagnoses (filter (\<lambda>x. fst x \<noteq> m) (report_models report)) =
             Inr (report_final report)) \<and>
         (run_inference self infer m (prepare_sensor_data sensor_data) = Some (Scalars []) \<longrightarrow>
           (\<exists>t tt. map_of (report_models report) m =
              Some (Success False 0 (interpret_diagnosis m 0) t tt)) \<and>
           m \<in> set (confidence_bearing (report_models report)) \<and>
           consensus (report_final report) = vote_ratio (report_models report))"
proof -
  let ?input = "prepare_sensor_data sensor_data"
  note agg = diagnose_models(1) [OF rep]
  have "\<exists>ks g. report_models report = map (\<lambda>m. (m, g m)) ks \<and>
      (run_inference self infer m ?input = None \<longrightarrow>
         m \<in> set ks \<and> g m = Failure ''Inference failed'') \<and>
      (run_inference self infer m ?input = Some (Scalars []) \<longrightarrow>
         m \<in> set ks \<and> (\<exists>t tt. g m = Success False 0 (interpret_diagnosis m 0) t tt))"
  proof (cases "mode_arg = Some ''simultaneous''")
    case True
    let ?g = "\<lambda>m. add_total_time (total_time clk) (projr (run_model self infer clk ?input m))"
    let ?ks = "filter (\<lambda>m. \<not> isl (run_model self infer clk ?input m)) (completion_order clk)"
    from diagnose_models(2) [OF rep True]
    have R: "report_models report = map (\<lambda>m. (m, ?g m)) ?ks"
      by (simp add: run_simultaneous_inference_eq)
    have a: "run_inference self infer m ?input = None \<longrightarrow>
         m \<in> set ?ks \<and> ?g m = Failure ''Inference failed''"
      using key ld by (simp add: run_model_failed completion_order_set)
    have b: "run_inference self infer m ?input = Some (Scalars []) \<longrightarrow>
         m \<in> set ?ks \<and> (\<exists>t tt. ?g m = Success False 0 (interpret_diagnosis m 0) t tt)"
      using key ld by (simp add: run_model_empty completion_order_set)
    from R a b show ?thesis
      by - (rule exI [of _ ?ks], rule exI [of _ ?g], simp)
  next
    case False
    let ?g = "\<lambda>m. projr (sequential_result self infer ?input m)"
    note loop = diagnose_models(3) [OF rep False]
    have R: "report_models report = map (\<lambda>m. (m, ?g m)) MODEL_KEYS"
      by (rule sequential_loop_eq(1) [OF loop])
    have a: "run_inference self infer m ?input = None \<longrightarrow>
         m \<in> set MODEL_KEYS \<and> ?g m = Failure ''Inference failed''"
      using key ld by (simp add: sequential_result_failed)
    have b: "run_inference self infer m ?input = Some (Scalars []) \<longrightarrow>
         m \<in> set MODEL_KEYS \<and> (\<exists>t tt. ?g m = Success False 0 (interpret_diagnosis m 0) t tt)"
      using key ld by (simp add: sequential_result_empty)
    from R a b show ?thesis
      by - (rule exI [of _ MODEL_KEYS], rule exI [of _ ?g], simp)
  qed
  then obtain ks g where R: "report_models report = map (\<lambda>m. (m, g m)) ks"
    and none: "run_inference self infer m ?input = None \<Longrightarrow>
         m \<in> set ks \<and> g m = Failure ''Inference failed''"
    and empty: "run_inference self infer m ?input = Some (Scalars []) \<Longrightarrow>
         m \<in> set ks \<and> (\<exists>t tt. g m = Success False 0 (interpret_diagnosis m 0) t tt)"
    by auto
  note agg' = agg [unfolded R]
  have 1: "map_of (report_models report) m = Some (Failure ''Inference failed'') \<and>
           m \<notin> set (confidence_bearing (report_models report)) \<and>
           aggregate_diagnoses (filter (\<lambda>x. fst x \<noteq> m) (report_models report)) =
             Inr (report_final report)"
    if "run_inference self infer m ?input = None"
    unfolding R using none [OF that] agg' by (simp add: keyed_failure_entry)
  have 2: "(\<exists>t tt. map_of (report_models report) m =
              Some (Success False 0 (interpret_diagnosis m 0) t tt)) \<and>
           m \<in> set (confidence_bearing (report_models report)) \<and>
           consensus (report_final report) = vote_ratio (report_models report)"
    if "run_inference self infer m ?input = Some (Scalars [])"
  proof -
    from empty [OF that] obtain t tt where
      m: "m \<in> set ks" and g: "g m = Success False 0 (interpret_diagnosis m 0) t tt" by auto
    from keyed_success_entry [OF m g agg'] show ?thesis unfolding R by auto
  qed
  from agg 1 2 show ?thesis by simp
qed

theorem inference_failure_result_witness:
  "''aquilo'' \<in> set MODEL_KEYS \<and> is_loaded sample_diagnostics ''aquilo'' \<and>
   diagnose sample_diagnostics raising_backend sample_clock Map.empty (Some ''sequential'') =
     Inr \<lparr>report_models = raising_sequential_models, report_final = raising_final,
          report_mode = ''sequential''\<rparr> \<and>
   run_inference sample_diagnostics raising_backend ''aquilo'' (prepare_sensor_data Map.empty) =
     None \<and>
   map_of raising_sequential_models ''aquilo'' = Some (Failure ''Inference failed'') \<and>
   confidence_bearing raising_sequential_models = [''apollo''] \<and>
   aggregate_diagnoses (filter (\<lambda>x. fst x \<noteq> ''aquilo'') raising_sequential_models) =
     Inr raising_final \<and>
   consensus raising_final = 1 \<and>
   ''apollo'' \<in> set MODEL_KEYS \<and> is_loaded sample_diagnostics ''apollo'' \<and>
   diagnose sample_diagnostics sample_backend sample_clock Map.empty (Some ''sequential'') =
     Inr \<lparr>report_models = sample_sequential_models, report_final = sample_final,
          report_mode = ''sequential''\<rparr> \<and>
   run_inference sample_diagnostics sample_backend ''apollo'' (prepare_sensor_data Map.empty) =
     Some (Scalars []) \<and>
   map_of sample_sequential_models ''apollo'' =
     Some (Success False 0 ''System coordination normal'' None None) \<and>
   confidence_bearing sample_sequential_models = [''apollo'', ''aquilo''] \<and>
   consensus sample_final = vote_ratio sample_sequential_models \<and>
   consensus sample_final = 1 / 2"
proof -
  have key: "''aquilo'' \<in> set MODEL_KEYS" and key': "''apollo'' \<in> set MODEL_KEYS"
    by (simp_all add: MODEL_KEYS_eq)
  have ld: "is_loaded sample_diagnostics ''aquilo''"
    and ld': "is_loaded sample_diagnostics ''apollo''"
    by (simp_all add: sample_is_loaded)
  have rep: "diagnose sample_diagnostics raising_backend sample_clock Map.empty
      (Some ''sequential'') =
     Inr \<lparr>report_models = raising_sequential_models, report_final = raising_final,
          report_mode = ''sequential''\<rparr>"
    by (rule raising_sequential_report) simp
  have rep': "diagnose sample_diagnostics sample_backend sample_clock Map.empty
      (Some ''sequential'') =
     Inr \<lparr>report_models = sample_sequential_models, report_final = sample_final,
          report_mode = ''sequential''\<rparr>"
    by (rule sample_sequential_report) simp
  have run: "run_inference sample_diagnostics raising_backend ''aquilo''
      (prepare_sensor_data Map.empty) = None"
    by (simp add: run_inference_def sample_network_groups raising_backend_def)
  have run': "run_inference sample_diagnostics sample_backend ''apollo''
      (prepare_sensor_data Map.empty) = Some (Scalars [])"
    by (simp add: run_inference_def sample_network_groups sample_backend_def)
  have cb: "confidence_bearing raising_sequential_models = [''apollo'']"
    "confidence_bearing sample_sequential_models = [''apollo'', ''aquilo'']"
    by (simp_all add: confidence_bearing_def raising_sequential_models_def
        sample_sequential_models_def)
  have c: "consensus raising_final = 1" "consensus sample_final = 1 / 2"
    by (simp_all add: raising_final_def sample_final_def)
  have look: "map_of sample_sequential_models ''apollo'' =
     Some (Success False 0 ''System coordination normal'' None None)"
    by (simp add: sample_sequential_models_def)
  from inference_failure_result [OF key ld rep] run
  have 1: "map_of raising_sequential_models ''aquilo'' = Some (Failure ''Inference failed'')"
    "aggregate_diagnoses (filter (\<lambda>x. fst x \<noteq> ''aquilo'') raising_sequential_models) =
     Inr raising_final"
    by simp_all
  from inference_failure_result [OF key' ld' rep'] run'
  have 2: "consensus sample_final = vote_ratio sample_sequential_models"
    by simp
  from key key' ld ld' rep rep' run run' cb c look 1 2 show ?thesis by simp
qed

text \<open>
  The claim as stated fails where the backend returns an empty output for a loaded model: the
  entry is a result with confidence \<open>0.0\<close>, not the error record, and the aggregation counts
  it (the consensus is \<open>1 / 2\<close> over two voting models).
\<close>

theorem empty_output_success_counterexample:
  "is_loaded sample_diagnostics ''apollo'' \<and>
   run_inference sample_diagnostics sample_backend ''apollo'' (prepare_sensor_data Map.empty) =
     Some (Scalars []) \<and>
   diagnose sample_diagnostics sample_backend sample_clock Map.empty (Some ''simultaneous'') =
     Inr \<lparr>report_models = sample_simultaneous_models, report_final = sample_final,
          report_mode = ''simultaneous''\<rparr> \<and>
   map_of sample_simultaneous_models ''apollo'' =
     Some (Success False 0 ''System coordination normal'' (Some 12.5) (Some 14.25)) \<and>
   confidence_bearing sample_simultaneous_models = [''aquilo'', ''apollo''] \<and>
   consensus sample_final = 1 / 2"
  by (simp add: sample_is_loaded run_inference_def sample_network_groups sample_backend_def
      sample_simultaneous_report sample_simultaneous_models_def confidence_bearing_def
      sample_final_def)

subsection \<open>Initialisation failure\<close>

text \<open>
  C6 (amended). \<open>initialize\<close> returns false when creating the device raises, or when
  \<open>path.exists()\<close> raises for a model path (an exception outside the \<open>try\<close> of that model);
  then the \<open>diagnose\<close> command prints the top-level error \<open>Failed to initialize Hailo device\<close>
  and no report. When \<open>initialize\<close> returns true and the registry reports no model loaded, the
  command prints a report: every model's entry is the error record \<open>Model not loaded\<close>, and
  the final result is \<open>{diagnosis: "Unable to complete diagnosis", consensus: 0}\<close>.
\<close>

theorem initialization_failure:
  assumes len: "3 \<le> length argv" and cmd: "argv ! 1 = ''diagnose''"
    and json: "json_loads (argv ! 2) = Some sensor_data"
  shows "(fst (initialize hw init_diagnostics) \<longleftrightarrow>
            vdevice_ok hw \<and>
            (\<forall>entry\<in>set MODEL_PATHS. \<forall>e. load_hef hw (snd entry) \<noteq> Path_exception e)) \<and>
         (\<not> fst (initialize hw init_diagnostics) \<longrightarrow>
           main argv json_loads hw infer clk =
             (Json_error ''Failed to initialize Hailo device'', 0)) \<and>
         (fst (initialize hw init_diagnostics) \<and>
          (\<forall>m. \<not> is_loaded (snd (initialize hw init_diagnostics)) m) \<longrightarrow>
           (\<exists>report. main argv json_loads hw infer clk = (Json_report report, 0) \<and>
              (\<forall>m\<in>set MODEL_KEYS.
                 map_of (report_models report) m = Some (Failure ''Model not loaded'')) \<and>
              set (map fst (report_models report)) = set MODEL_KEYS \<and>
              report_final report =
                \<lparr>final_diagnosis = ''Unable to complete diagnosis'', consensus = 0\<rparr>))"
proof (intro conjI impI)
  show "fst (initialize hw init_diagnostics) \<longleftrightarrow>
            vdevice_ok hw \<and>
            (\<forall>entry\<in>set MODEL_PATHS. \<forall>e. load_hef hw (snd entry) \<noteq> Path_exception e)"
    by (rule initialize_flag)
next
  assume "\<not> fst (initialize hw init_diagnostics)"
  with len cmd json show "main argv json_loads hw infer clk =
      (Json_error ''Failed to initialize Hailo device'', 0)"
    by (rule main_diagnose_not_initialized)
next
  assume a: "fst (initialize hw init_diagnostics) \<and>
    (\<forall>m. \<not> is_loaded (snd (initialize hw init_diagnostics)) m)"
  then have dev: "fst (initialize hw init_diagnostics)" by simp
  define mode where "mode = (if length argv > 3 then argv ! 3 else ''simultaneous'')"
  define self where "self = snd (initialize hw init_diagnostics)"
  have nl: "\<not> is_loaded self m" for m
    unfolding self_def using a by simp
  from diagnose_none_loaded [of self infer clk sensor_data mode, OF nl]
  obtain keys where keys: "set keys = set MODEL_KEYS" and
    rep: "diagnose self infer clk sensor_data (Some mode) =
       Inr \<lparr>report_models = map (\<lambda>m. (m, Failure ''Model not loaded'')) keys,
            report_final =
              \<lparr>final_diagnosis = ''Unable to complete diagnosis'', consensus = 0\<rparr>,
            report_mode = mode\<rparr>"
    by auto
  have m: "main argv json_loads hw infer clk =
       (Json_report \<lparr>report_models = map (\<lambda>m. (m, Failure ''Model not loaded'')) keys,
            report_final =
              \<lparr>final_diagnosis = ''Unable to complete diagnosis'', consensus = 0\<rparr>,
            report_mode = mode\<rparr>, 0)"
    using rep
    by (simp add: main_diagnose_initialized
        [where argv = argv and json_loads = json_loads, OF len cmd json dev]
        self_def mode_def)
  have look: "\<forall>m\<in>set MODEL_KEYS.
      map_of (map (\<lambda>m. (m, Failure ''Model not loaded'')) keys) m =
        Some (Failure ''Model not loaded'')"
    using keys by (simp add: map_of_keyed)
  have ks: "set (map fst (map (\<lambda>m. (m, Failure ''Model not loaded'')) keys)) = set MODEL_KEYS"
    using keys by (simp add: o_def)
  show "\<exists>report. main argv json_loads hw infer clk = (Json_report report, 0) \<and>
              (\<forall>m\<in>set MODEL_KEYS.
                 map_of (report_models report) m = Some (Failure ''Model not loaded'')) \<and>
              set (map fst (report_models report)) = set MODEL_KEYS \<and>
              report_final report =
                \<lparr>final_diagnosis = ''Unable to complete diagnosis'', consensus = 0\<rparr>"
    unfolding m using look ks by (simp add: image_image)
qed

theorem initialization_failure_witness:
  "\<not> vdevice_ok no_device_hardware \<and>
   \<not> fst (initialize no_device_hardware init_diagnostics) \<and>
   main [''hailo_inference.py'', ''diagnose'', ''{}''] sample_json_loads no_device_hardware
     sample_backend sample_clock = (Json_error ''Failed to initialize Hailo device'', 0) \<and>
   vdevice_ok unsearchable_hardware \<and>
   initialize unsearchable_hardware init_diagnostics = (False, unsearchable_diagnostics) \<and>
   main [''hailo_inference.py'', ''diagnose'', ''{}''] sample_json_loads unsearchable_hardware
     sample_backend sample_clock = (Json_error ''Failed to initialize Hailo device'', 0) \<and>
   fst (initialize no_files_hardware init_diagnostics) \<and>
   main [''hailo_inference.py'', ''diagnose'', ''{}''] sample_json_loads no_files_hardware
     sample_backend sample_clock =
     (Json_report
        \<lparr>report_models = not_loaded_models,
         report_final =
           \<lparr>final_diagnosis = ''Unable to complete diagnosis'', consensus = 0\<rparr>,
         report_mode = ''simultaneous''\<rparr>, 0) \<and>
   map_of not_loaded_models ''apollo'' = Some (Failure ''Model not loaded'')"
proof -
  have nodev: "\<not> vdevice_ok no_device_hardware" by (simp add: no_device_hardware_def)
  have dev: "vdevice_ok unsearchable_hardware" by (simp add: unsearchable_hardware_def)
  note thm1 = initialization_failure
    [where argv = "[''hailo_inference.py'', ''diagnose'', ''{}'']"
      and json_loads = sample_json_loads and hw = no_device_hardware
      and infer = sample_backend and clk = sample_clock,
      OF sample_argv(1) sample_argv(3) sample_argv(4)]
  note thm2 = initialization_failure
    [where argv = "[''hailo_inference.py'', ''diagnose'', ''{}'']"
      and json_loads = sample_json_loads and hw = unsearchable_hardware
      and infer = sample_backend and clk = sample_clock,
      OF sample_argv(1) sample_argv(3) sample_argv(4)]
  note thm3 = initialization_failure
    [where argv = "[''hailo_inference.py'', ''diagnose'', ''{}'']"
      and json_loads = sample_json_loads and hw = no_files_hardware
      and infer = sample_backend and clk = sample_clock,
      OF sample_argv(1) sample_argv(3) sample_argv(4)]
  from thm1 nodev have f1: "\<not> fst (initialize no_device_hardware init_diagnostics)" by simp
  with thm1 have e1: "main [''hailo_inference.py'', ''diagnose'', ''{}''] sample_json_loads
      no_device_hardware sample_backend sample_clock =
      (Json_error ''Failed to initialize Hailo device'', 0)" by simp
  have f2: "\<not> fst (initialize unsearchable_hardware init_diagnostics)"
    by (simp add: unsearchable_initialize)
  with thm2 have e2: "main [''hailo_inference.py'', ''diagnose'', ''{}''] sample_json_loads
      unsearchable_hardware sample_backend sample_clock =
      (Json_error ''Failed to initialize Hailo device'', 0)" by simp
  from thm3 no_files_initialize
  have l3: "map_of not_loaded_models ''apollo'' = Some (Failure ''Model not loaded'')"
    by (simp add: no_files_main MODEL_KEYS_eq)
  from nodev f1 e1 dev e2 l3 no_files_initialize(1) show ?thesis
    by (simp add: unsearchable_initialize no_files_main)
qed

text \<open>
  The claim as stated fails when the device initialises and no model loads: the registry
  reports no model loaded, and the command prints a report, not a top-level error.
\<close>

theorem no_models_loaded_report_counterexample:
  "map (is_loaded (snd (initialize no_files_hardware init_diagnostics))) MODEL_KEYS =
     [False, False, False, False, False, False, False, False] \<and>
   main [''hailo_inference.py'', ''diagnose'', ''{}''] sample_json_loads no_files_hardware
     sample_backend sample_clock =
     (Json_report
        \<lparr>report_models = not_loaded_models,
         report_final =
           \<lparr>final_diagnosis = ''Unable to complete diagnosis'', consensus = 0\<rparr>,
         report_mode = ''simultaneous''\<rparr>, 0)"
  by (simp add: no_files_initialize no_files_main MODEL_KEYS_eq)

subsection \<open>Timing fields\<close>

text \<open>
  C7 (amended). Every result with a confidence that \<open>diagnose\<close> produces in simultaneous mode
  carries \<open>inference_time_ms\<close>, the duration its thread measured, and
  \<open>total_ensemble_time_ms\<close>; a result that \<open>diagnose\<close> produces in sequential mode carries
  neither field.
\<close>

theorem inference_time_field:
  assumes rep: "diagnose self infer clk sensor_data mode_arg = Inr report"
    and entry: "(m, Success fd c d t tt) \<in> set (report_models report)"
  shows "(mode_arg = Some ''simultaneous'' \<longrightarrow>
           t = Some (inference_time clk m) \<and> tt = Some (total_time clk)) \<and>
         (mode_arg \<noteq> Some ''simultaneous'' \<longrightarrow> t = None \<and> tt = None)"
proof (cases "mode_arg = Some ''simultaneous''")
  case True
  with entry diagnose_models(2) [OF rep]
  have "(m, Success fd c d t tt) \<in>
    set (run_simultaneous_inference self infer clk (prepare_sensor_data sensor_data))" by simp
  then obtain r where
    "run_model self infer clk (prepare_sensor_data sensor_data) m = Inr r"
    "add_total_time (total_time clk) r = Success fd c d t tt"
    by (auto simp: run_simultaneous_inference_entry)
  from run_model_Success [OF this] True show ?thesis by auto
next
  case False
  from entry sequential_loop_entry [OF diagnose_models(3) [OF rep False]]
  have "sequential_result self infer (prepare_sensor_data sensor_data) m =
      Inr (Success fd c d t tt)"
    by simp
  from sequential_result_Success [OF this] False show ?thesis by auto
qed

theorem inference_time_field_witness:
  "diagnose sample_diagnostics sample_backend sample_clock Map.empty (Some ''simultaneous'') =
     Inr \<lparr>report_models = sample_simultaneous_models, report_final = sample_final,
          report_mode = ''simultaneous''\<rparr> \<and>
   (''aquilo'', Success True 0.9 ''Electrical fault detected'' (Some 12.5) (Some 14.25))
     \<in> set sample_simultaneous_models \<and>
   inference_time sample_clock ''aquilo'' = 12.5 \<and> total_time sample_clock = 14.25 \<and>
   diagnose sample_diagnostics sample_backend sample_clock Map.empty (Some ''sequential'') =
     Inr \<lparr>report_models = sample_sequential_models, report_final = sample_final,
          report_mode = ''sequential''\<rparr> \<and>
   (''aquilo'', Success True 0.9 ''Electrical fault detected'' None None)
     \<in> set sample_sequential_models"
proof -
  have rep: "diagnose sample_diagnostics sample_backend sample_clock Map.empty
      (Some ''simultaneous'') =
     Inr \<lparr>report_models = sample_simultaneous_models, report_final = sample_final,
          report_mode = ''simultaneous''\<rparr>"
    by (rule sample_simultaneous_report)
  have entry: "(''aquilo'', Success True 0.9 ''Electrical fault detected'' (Some 12.5)
      (Some 14.25))
     \<in> set (report_models \<lparr>report_models = sample_simultaneous_models,
          report_final = sample_final, report_mode = ''simultaneous''\<rparr>)"
    by (simp add: sample_simultaneous_models_def)
  have rep': "diagnose sample_diagnostics sample_backend sample_clock Map.empty
      (Some ''sequential'') =
     Inr \<lparr>report_models = sample_sequential_models, report_final = sample_final,
          report_mode = ''sequential''\<rparr>"
    by (rule sample_sequential_report) simp
  have entry': "(''aquilo'', Success True 0.9 ''Electrical fault detected'' None None)
     \<in> set (report_models \<lparr>report_models = sample_sequential_models,
          report_final = sample_final, report_mode = ''sequential''\<rparr>)"
    by (simp add: sample_sequential_models_def)
  from inference_time_field [OF rep entry] inference_time_field [OF rep' entry']
    rep entry rep' entry'
  show ?thesis by simp
qed

text \<open>
  The claim as stated fails in sequential mode: the results with a confidence carry no
  \<open>inference_time_ms\<close>.
\<close>

theorem sequential_no_inference_time_counterexample:
  "diagnose sample_diagnostics sample_backend sample_clock Map.empty (Some ''sequential'') =
     Inr \<lparr>report_models = sample_sequential_models, report_final = sample_final,
          report_mode = ''sequential''\<rparr> \<and>
   confidence_bearing sample_sequential_models = [''apollo'', ''aquilo''] \<and>
   map_of sample_sequential_models ''aquilo'' =
     Some (Success True 0.9 ''Electrical fault detected'' None None) \<and>
   inference_time_ms (Success True 0.9 ''Electrical fault detected'' None None) = None"
  by (simp add: sample_sequential_report sample_sequential_models_def confidence_bearing_def)

subsection \<open>Diagnosis interpreter\<close>

text \<open>
  C8. At the fault probability \<open>0.5\<close>, which does not exceed \<open>0.5\<close>, \<open>interpret_diagnosis\<close>
  returns the fault string of the model, because it tests \<open>fault_prob < 0.5\<close> for the normal
  string; the entry that \<open>diagnose\<close> builds from a backend output of \<open>0.5\<close> has
  \<open>fault_detected\<close> false, from the test \<open>fault_prob > 0.5\<close>, next to that fault string.
\<close>

theorem interpret_diagnosis_at_threshold:
  "\<not> (0.5 :: real) > 0.5 \<and>
   interpret_diagnosis ''apollo'' 0.5 = ''System coordination issue detected'' \<and>
   sequential_result sample_diagnostics half_backend (prepare_sensor_data Map.empty) ''apollo'' =
     Inr (Success False 0.5 ''System coordination issue detected'' None None)"
  by (simp add: interpret_diagnosis_def diagnoses_def sequential_result_def sample_is_loaded
      run_inference_def sample_network_groups half_backend_def)

subsection \<open>Isolation\<close>

text \<open>
  C9. Isolation, sequential mode: take a run of \<open>diagnose\<close> that returns a report, and a second
  backend that agrees with the first on every model except one, for which it fails, returns an
  empty output or returns any other row of scalars. Then the second run returns a report too,
  and the entry of every other model is the same in the two reports.
\<close>

theorem isolation_sequential:
  assumes seq: "mode_arg \<noteq> Some ''simultaneous''"
    and agree: "\<And>m' x. m' \<noteq> m \<Longrightarrow> infer_b m' x = infer_a m' x"
    and rep: "diagnose self infer_a clk sensor_data mode_arg = Inr r1"
    and fails: "\<forall>msg. infer_b m (prepare_sensor_data sensor_data) \<noteq> Some (Unreadable msg)"
  shows "\<exists>r2. diagnose self infer_b clk sensor_data mode_arg = Inr r2 \<and>
           (\<forall>m'. m' \<noteq> m \<longrightarrow>
              map_of (report_models r1) m' = map_of (report_models r2) m')"
proof -
  let ?input = "prepare_sensor_data sensor_data"
  note loop_a = diagnose_models(3) [OF rep seq]
  have same: "sequential_result self infer_b ?input m' = sequential_result self infer_a ?input m'"
    if "m' \<noteq> m" for m'
    using agree [OF that] by (simp add: sequential_result_def run_inference_def)
  have "\<exists>r. sequential_result self infer_b ?input m' = Inr r" if "m' \<in> set MODEL_KEYS" for m'
  proof (cases "m' = m")
    case True
    have "\<forall>msg. run_inference self infer_b m ?input \<noteq> Some (Unreadable msg)"
      using fails by (simp add: run_inference_def)
    then show ?thesis unfolding True by (intro sequential_result_returns)
  next
    case False
    from sequential_loop_eq(2) [OF loop_a] that same [OF False] show ?thesis by simp
  qed
  then have "\<forall>m'\<in>set MODEL_KEYS. \<exists>r. sequential_result self infer_b ?input m' = Inr r"
    by simp
  from sequential_loop_returns [OF this] obtain results where
    loop_b: "sequential_loop self infer_b ?input = Inr results" by auto
  from diagnose_sequential [OF seq loop_b, of clk] obtain final where
    r2: "diagnose self infer_b clk sensor_data mode_arg =
       Inr \<lparr>report_models = results, report_final = final,
            report_mode = (case mode_arg of None \<Rightarrow> ''sequential'' | Some m \<Rightarrow> m)\<rparr>"
    by auto
  have "map_of (report_models r1) m' = map_of results m'" if "m' \<noteq> m" for m'
    unfolding sequential_loop_lookup [OF loop_a] sequential_loop_lookup [OF loop_b]
    using same [OF that] by simp
  with r2 show ?thesis by simp
qed

theorem isolation_sequential_witness:
  "failing_backend ''aquilo'' (prepare_sensor_data Map.empty) = None \<and>
   sample_backend ''aquilo'' (prepare_sensor_data Map.empty) = Some (Scalars [0.9, 0.2]) \<and>
   diagnose sample_diagnostics sample_backend sample_clock Map.empty (Some ''sequential'') =
     Inr \<lparr>report_models = sample_sequential_models, report_final = sample_final,
          report_mode = ''sequential''\<rparr> \<and>
   diagnose sample_diagnostics failing_backend sample_clock Map.empty (Some ''sequential'') =
     Inr \<lparr>report_models = failing_sequential_models, report_final = failing_final,
          report_mode = ''sequential''\<rparr> \<and>
   map_of sample_sequential_models ''apollo'' = map_of failing_sequential_models ''apollo'' \<and>
   map_of failing_sequential_models ''apollo'' =
     Some (Success False 0 ''System coordination normal'' None None)"
proof -
  have seq: "Some ''sequential'' \<noteq> Some ''simultaneous''" by simp
  have agree: "failing_backend m' x = sample_backend m' x" if "m' \<noteq> ''aquilo''" for m' x
    using that by (simp add: failing_backend_def)
  have fails: "\<forall>msg. failing_backend ''aquilo'' (prepare_sensor_data Map.empty) \<noteq>
      Some (Unreadable msg)"
    by (simp add: failing_backend_def)
  have rep1: "diagnose sample_diagnostics sample_backend sample_clock Map.empty
      (Some ''sequential'') =
     Inr \<lparr>report_models = sample_sequential_models, report_final = sample_final,
          report_mode = ''sequential''\<rparr>"
    by (rule sample_sequential_report) simp
  have rep2: "diagnose sample_diagnostics failing_backend sample_clock Map.empty
      (Some ''sequential'') =
     Inr \<lparr>report_models = failing_sequential_models, report_final = failing_final,
          report_mode = ''sequential''\<rparr>"
    by (rule failing_sequential_report) simp
  have "\<exists>r2.
     diagnose sample_diagnostics failing_backend sample_clock Map.empty (Some ''sequential'') =
       Inr r2 \<and>
     (\<forall>m'. m' \<noteq> ''aquilo'' \<longrightarrow>
        map_of (report_models \<lparr>report_models = sample_sequential_models,
          report_final = sample_final, report_mode = ''sequential''\<rparr>) m' =
        map_of (report_models r2) m')"
    using seq agree rep1 fails by (rule isolation_sequential)
  then
  obtain r2 where
    "diagnose sample_diagnostics failing_backend sample_clock Map.empty (Some ''sequential'') =
       Inr r2"
    and same: "\<forall>m'. m' \<noteq> ''aquilo'' \<longrightarrow>
       map_of sample_sequential_models m' = map_of (report_models r2) m'"
    by auto
  with rep2 have r: "report_models r2 = failing_sequential_models" by simp
  have ne: "''apollo'' \<noteq> ''aquilo''" by simp
  from same [rule_format, OF ne]
  have "map_of sample_sequential_models ''apollo'' =
      map_of failing_sequential_models ''apollo''"
    unfolding r .
  moreover have "map_of failing_sequential_models ''apollo'' =
     Some (Success False 0 ''System coordination normal'' None None)"
    by (simp add: failing_sequential_models_def)
  moreover have "failing_backend ''aquilo'' (prepare_sensor_data Map.empty) = None"
    "sample_backend ''aquilo'' (prepare_sensor_data Map.empty) = Some (Scalars [0.9, 0.2])"
    by (simp_all add: failing_backend_def sample_backend_def)
  ultimately show ?thesis using rep1 rep2 by simp
qed

subsection \<open>Mode dispatch\<close>

text \<open>
  C10. For every mode string other than exactly \<open>simultaneous\<close>, \<open>diagnose\<close> runs the
  sequential loop: it returns the model mapping the loop builds (whatever the threads and the
  clock would do), or raises what the loop raises. For every mode string the \<open>mode\<close> field of
  the report returned is the caller's string; with the string \<open>simultaneous\<close> the model
  mapping is the one the threads build.
\<close>

theorem mode_dispatch:
  "(mode \<noteq> ''simultaneous'' \<longrightarrow>
      (\<forall>results. sequential_loop self infer (prepare_sensor_data sensor_data) = Inr results \<longrightarrow>
         (\<exists>final. diagnose self infer clk sensor_data (Some mode) =
            Inr \<lparr>report_models = results, report_final = final, report_mode = mode\<rparr>)) \<and>
      (\<forall>e. sequential_loop self infer (prepare_sensor_data sensor_data) = Inl e \<longrightarrow>
         diagnose self infer clk sensor_data (Some mode) = Inl e)) \<and>
   (mode = ''simultaneous'' \<longrightarrow>
      (\<exists>final. diagnose self infer clk sensor_data (Some mode) =
         Inr \<lparr>report_models =
                run_simultaneous_inference self infer clk (prepare_sensor_data sensor_data),
              report_final = final, report_mode = mode\<rparr>)) \<and>
   (\<forall>report. diagnose self infer clk sensor_data (Some mode) = Inr report \<longrightarrow>
      report_mode report = mode)"
proof (cases "mode = ''simultaneous''")
  case True
  with diagnose_simultaneous [of self infer clk sensor_data] show ?thesis by auto
next
  case False
  then have ns: "Some mode \<noteq> Some ''simultaneous''" by simp
  have 1: "\<exists>final. diagnose self infer clk sensor_data (Some mode) =
            Inr \<lparr>report_models = results, report_final = final, report_mode = mode\<rparr>"
    if "sequential_loop self infer (prepare_sensor_data sensor_data) = Inr results" for results
    using diagnose_sequential [OF ns that, of clk] by auto
  have 2: "diagnose self infer clk sensor_data (Some mode) = Inl e"
    if "sequential_loop self infer (prepare_sensor_data sensor_data) = Inl e" for e
    using diagnose_sequential_raises [OF ns that, of clk] .
  have 3: "report_mode report = mode"
    if "diagnose self infer clk sensor_data (Some mode) = Inr report" for report
  proof -
    from 1 [OF diagnose_models(3) [OF that ns]] that obtain final where
      "report = \<lparr>report_models = report_models report, report_final = final,
         report_mode = mode\<rparr>" by auto
    from arg_cong [OF this, of report_mode] show ?thesis by simp
  qed
  from False 1 2 3 show ?thesis by simp
qed

theorem mode_dispatch_witness:
  "''turbo'' \<noteq> ''simultaneous'' \<and>
   diagnose sample_diagnostics sample_backend sample_clock Map.empty (Some ''turbo'') =
     Inr \<lparr>report_models = sample_sequential_models, report_final = sample_final,
          report_mode = ''turbo''\<rparr> \<and>
   sequential_loop sample_diagnostics sample_backend (prepare_sensor_data Map.empty) =
     Inr sample_sequential_models"
  using mode_dispatch [of "''turbo''" sample_diagnostics sample_backend Map.empty sample_clock]
    sample_sequential_report [of "''turbo''" Map.empty]
  by (simp add: sample_sequential_loop)

end
